theory Spec2Isabelle
  imports Complex_Main "HOL-Library.Sublist"
begin

section \<open>JavaScript values used by the bloodwork screening route\<close>

subsection \<open>Strings\<close>

text \<open>
  A JavaScript string is a sequence of UTF-16 code units. The catalog's units contain
  U+03BC (Greek small mu) and the summaries start with U+26A0 U+FE0F / U+2705, none of which
  fits a byte, so a code unit is a natural number and \<open>str\<close> embeds ASCII literals.
\<close>

type_synonym jsstring = "nat list"

definition str :: "string \<Rightarrow> jsstring" where
  "str s = map of_char s"

definition is_upper :: "nat \<Rightarrow> bool" where
  "is_upper c = (65 \<le> c \<and> c \<le> 90)"

definition is_lower :: "nat \<Rightarrow> bool" where
  "is_lower c = (97 \<le> c \<and> c \<le> 122)"

definition is_digit :: "nat \<Rightarrow> bool" where
  "is_digit c = (48 \<le> c \<and> c \<le> 57)"

text \<open>
  The members of the regular expression class \<open>\s\<close>, which are also the code units removed by
  \<open>String.prototype.trim\<close>: tab, LF, VT, FF, CR, space, U+00A0, U+1680, U+2000..U+200A, U+2028,
  U+2029, U+202F, U+205F, U+3000, U+FEFF.
\<close>

definition is_space :: "nat \<Rightarrow> bool" where
  "is_space c = (c \<in> set [9, 10, 11, 12, 13, 32, 160, 5760, 8232, 8233, 8239, 8287, 12288, 65279]
     \<or> (8192 \<le> c \<and> c \<le> 8202))"

text \<open>
  \<open>String.prototype.toLowerCase\<close>. ASCII capitals move to their small letters. Outside ASCII
  only two code units have a lowercase image that contains an ASCII letter: U+0130 (to
  \<open>i\<close> followed by U+0307) and U+212A, the Kelvin sign (to \<open>k\<close>). The route compares
  lowered strings with ASCII words only (catalog names, \<open>mmol\<close>, file extensions), so every
  other code unit is kept as it is: its real image is outside ASCII as well.
\<close>

definition lower_unit :: "nat \<Rightarrow> jsstring" where
  "lower_unit c = (if is_upper c then [c + 32]
     else if c = 304 then [105, 775]
     else if c = 8490 then [107]
     else [c])"

definition toLowerCase :: "jsstring \<Rightarrow> jsstring" where
  "toLowerCase s = concat (map lower_unit s)"

definition trim :: "jsstring \<Rightarrow> jsstring" where
  "trim s = rev (dropWhile is_space (rev (dropWhile is_space s)))"

primrec startsWith :: "jsstring \<Rightarrow> jsstring \<Rightarrow> bool" where
  "startsWith s [] = True"
| "startsWith s (p # ps) = (case s of [] \<Rightarrow> False | c # cs \<Rightarrow> c = p \<and> startsWith cs ps)"

text \<open>\<open>hay.includes(needle)\<close>: the needle occurs as a contiguous run of code units.\<close>

primrec includes_str :: "jsstring \<Rightarrow> jsstring \<Rightarrow> bool" where
  "includes_str [] needle = (needle = [])"
| "includes_str (c # cs) needle = (startsWith (c # cs) needle \<or> includes_str cs needle)"

text \<open>\<open>s.split(d)\<close> for a one-unit separator: never empty, the pieces between separators.\<close>

primrec split :: "nat \<Rightarrow> jsstring \<Rightarrow> jsstring list" where
  "split d [] = [[]]"
| "split d (c # cs) = (if c = d then [] # split d cs
     else (case split d cs of [] \<Rightarrow> [[c]] | w # ws \<Rightarrow> (c # w) # ws))"

text \<open>Decimal rendering of an array length inside a template literal.\<close>

fun digits_of :: "nat \<Rightarrow> jsstring" where
  "digits_of n = (if n < 10 then [48 + n] else digits_of (n div 10) @ [48 + n mod 10])"

declare digits_of.simps [simp del]

subsection \<open>Numbers\<close>

text \<open>
  A JavaScript number is an IEEE 754 double. A finite one is the real it denotes, and
  \<open>NaN\<close> and the two infinities are values of their own (the two zeros are one value: no
  comparison or text of the route tells them apart). A decimal literal, a parsed digit string
  and a product denote the double nearest to the exact real, ties to the even significand:
  that is \<open>double\<close>.
\<close>

datatype number = Fin real | PosInf | NegInf | NaN

definition pow2 :: "int \<Rightarrow> real" where
  "pow2 k = (if 0 \<le> k then 2 ^ nat k else 1 / 2 ^ nat (- k))"

text \<open>The number of binary digits of a natural number.\<close>

fun bit_length :: "nat \<Rightarrow> nat" where
  "bit_length n = (if n = 0 then 0 else Suc (bit_length (n div 2)))"

declare bit_length.simps [simp del]

text \<open>
  The binary exponent \<open>e\<close> of a positive real \<open>x\<close>: \<open>2 ^ e \<le> x < 2 ^ (e + 1)\<close>. Below one it is read
  from the reciprocal.
\<close>

definition binary_exponent :: "real \<Rightarrow> int" where
  "binary_exponent x =
     (if 1 \<le> x then int (bit_length (nat \<lfloor>x\<rfloor>)) - 1
      else (let j = int (bit_length (nat \<lfloor>1 / x\<rfloor>)) - 1
            in if x * pow2 j = 1 then - j else - j - 1))"

definition round_half_even :: "real \<Rightarrow> int" where
  "round_half_even q =
     (let f = \<lfloor>q\<rfloor>; r = q - of_int f
      in if r < 1 / 2 then f else if 1 / 2 < r then f + 1 else if even f then f else f + 1)"

text \<open>
  Rounding a positive real to a double: 53 binary digits from the exponent down, the
  exponent not below -1022 (subnormal numbers), and infinity from \<open>2 ^ 1024\<close> on.
\<close>

definition round_positive :: "real \<Rightarrow> number" where
  "round_positive x =
     (let e = max (binary_exponent x) (- 1022);
          ulp = pow2 (e - 52);
          y = of_int (round_half_even (x / ulp)) * ulp
      in if pow2 1024 \<le> y then PosInf else Fin y)"

definition double :: "real \<Rightarrow> number" where
  "double x =
     (if x = 0 then Fin 0
      else if 0 < x then round_positive x
      else (case round_positive (- x) of Fin y \<Rightarrow> Fin (- y) | _ \<Rightarrow> NegInf))"

fun num_lt :: "number \<Rightarrow> number \<Rightarrow> bool" where
  "num_lt NaN _ = False"
| "num_lt _ NaN = False"
| "num_lt (Fin a) (Fin b) = (a < b)"
| "num_lt (Fin a) PosInf = True"
| "num_lt (Fin a) NegInf = False"
| "num_lt PosInf _ = False"
| "num_lt NegInf NegInf = False"
| "num_lt NegInf _ = True"

definition num_gt :: "number \<Rightarrow> number \<Rightarrow> bool" where
  "num_gt a b = num_lt b a"

definition num_le :: "number \<Rightarrow> number \<Rightarrow> bool" where
  "num_le a b = (a \<noteq> NaN \<and> b \<noteq> NaN \<and> \<not> num_lt b a)"

fun num_times :: "number \<Rightarrow> number \<Rightarrow> number" where
  "num_times NaN _ = NaN"
| "num_times _ NaN = NaN"
| "num_times (Fin a) (Fin b) = double (a * b)"
| "num_times (Fin a) PosInf = (if a = 0 then NaN else if 0 < a then PosInf else NegInf)"
| "num_times (Fin a) NegInf = (if a = 0 then NaN else if 0 < a then NegInf else PosInf)"
| "num_times PosInf (Fin b) = (if b = 0 then NaN else if 0 < b then PosInf else NegInf)"
| "num_times NegInf (Fin b) = (if b = 0 then NaN else if 0 < b then NegInf else PosInf)"
| "num_times PosInf PosInf = PosInf"
| "num_times PosInf NegInf = NegInf"
| "num_times NegInf PosInf = NegInf"
| "num_times NegInf NegInf = PosInf"

definition isNaN :: "number \<Rightarrow> bool" where
  "isNaN v = (v = NaN)"

definition digits_value :: "jsstring \<Rightarrow> nat" where
  "digits_value ds = foldl (\<lambda>a d. 10 * a + (d - 48)) 0 ds"

text \<open>
  \<open>parseFloat\<close> on the strings the parser passes to it: a token of \<open>\d+\.?\d*\<close> or a unit token
  of \<open>[a-zA-Z\/%]+\<close>, or \<open>undefined\<close>. It reads the longest prefix that is a decimal literal:
  \<open>Infinity\<close>, or digits with an optional fraction. Without such a prefix the result is
  \<open>NaN\<close>. Signs, leading blanks and exponents cannot occur in these tokens next to a digit
  and are not read. The digits denote the nearest double.
\<close>

definition parseFloat :: "jsstring option \<Rightarrow> number" where
  "parseFloat arg = (case arg of None \<Rightarrow> NaN | Some s \<Rightarrow>
     if startsWith s (str ''Infinity'') then PosInf
     else
       let ip = takeWhile is_digit s;
           rest = drop (length ip) s;
           fp = (case rest of [] \<Rightarrow> [] | c # cs \<Rightarrow> if c = 46 then takeWhile is_digit cs else [])
       in if ip = [] \<and> fp = [] then NaN
          else double (real (digits_value ip) + real (digits_value fp) / 10 ^ length fp))"

section \<open>Regular expressions\<close>

text \<open>
  The four regular expressions of the route use character classes, greedy repetition of a
  class, greedy options, sequence, one alternative, the start assertion and capture groups.
  The matcher is the backtracking matcher of ECMAScript in continuation-passing style: a
  pattern is run at an index with the captures so far and a continuation that decides
  whether the rest of the pattern matches; the first success in priority order wins.
\<close>

datatype cls = Digit | Space | Alpha_Space | Not_RParen | Unit_Char | Lit nat

text \<open>
  The classes \<open>\d\<close>, \<open>\s\<close>, \<open>[A-Za-z\s]\<close>, \<open>[^)]\<close>, \<open>[a-zA-Z\/%]\<close> and a single pattern character.
  Under the flag \<open>i\<close> (without \<open>u\<close>) a code unit above 127 never canonicalises to an ASCII one,
  so an ASCII pattern character matches exactly its two ASCII cases and the letter classes
  match ASCII letters only.
\<close>

definition ascii_upper :: "nat \<Rightarrow> nat" where
  "ascii_upper c = (if is_lower c then c - 32 else c)"

fun in_cls :: "cls \<Rightarrow> nat \<Rightarrow> bool" where
  "in_cls Digit c = is_digit c"
| "in_cls Space c = is_space c"
| "in_cls Alpha_Space c = (is_upper c \<or> is_lower c \<or> is_space c)"
| "in_cls Not_RParen c = (c \<noteq> 41)"
| "in_cls Unit_Char c = (is_lower c \<or> is_upper c \<or> c = 47 \<or> c = 37)"
| "in_cls (Lit p) c = (ascii_upper c = ascii_upper p)"

datatype rx = Eps | Bol | One cls | Rep cls nat | Opt rx | Seq rx rx | Alt rx rx | Grp nat rx

type_synonym captures = "nat \<rightharpoonup> jsstring"

text \<open>
  A position in the subject string: the index and the code units from there on. The index is
  what the start assertion, \<open>lastIndex\<close> and the match's \<open>index\<close> read.
\<close>

type_synonym position = "nat \<times> jsstring"

text \<open>Greedy repetition of a class: the longest run first, then one unit less, down to the minimum.\<close>

primrec rep_try :: "position \<Rightarrow> nat \<Rightarrow> nat \<Rightarrow> (position \<Rightarrow> 'r option) \<Rightarrow> 'r option" where
  "rep_try p mn 0 k = (if mn = 0 then k p else None)"
| "rep_try p mn (Suc n) k = (if Suc n < mn then None
     else (case k (fst p + Suc n, drop (Suc n) (snd p)) of
             Some r \<Rightarrow> Some r
           | None \<Rightarrow> rep_try p mn n k))"

fun matcher :: "rx \<Rightarrow> position \<Rightarrow> captures \<Rightarrow> (position \<Rightarrow> captures \<Rightarrow> 'r option) \<Rightarrow> 'r option" where
  "matcher Eps p c k = k p c"
| "matcher Bol p c k = (if fst p = 0 then k p c else None)"
| "matcher (One cl) p c k =
     (case snd p of [] \<Rightarrow> None | x # xs \<Rightarrow> if in_cls cl x then k (Suc (fst p), xs) c else None)"
| "matcher (Rep cl mn) p c k =
     rep_try p mn (length (takeWhile (in_cls cl) (snd p))) (\<lambda>q. k q c)"
| "matcher (Opt r) p c k =
     (case matcher r p c k of Some x \<Rightarrow> Some x | None \<Rightarrow> k p c)"
| "matcher (Seq a b) p c k = matcher a p c (\<lambda>q c'. matcher b q c' k)"
| "matcher (Alt a b) p c k =
     (case matcher a p c k of Some x \<Rightarrow> Some x | None \<Rightarrow> matcher b p c k)"
| "matcher (Grp n r) p c k =
     matcher r p c (\<lambda>q c'. k q (c'(n \<mapsto> take (fst q - fst p) (snd p))))"

record rmatch =
  m_index :: nat
  m_end :: nat
  m_groups :: captures

definition match_at :: "rx \<Rightarrow> position \<Rightarrow> rmatch option" where
  "match_at r p =
     matcher r p Map.empty (\<lambda>q c. Some \<lparr>m_index = fst p, m_end = fst q, m_groups = c\<rparr>)"

text \<open>
  \<open>RegExp.prototype.exec\<close> without the flag \<open>g\<close>: the leftmost start index that matches, the
  index after the last code unit included.
\<close>

primrec exec_from :: "rx \<Rightarrow> nat \<Rightarrow> jsstring \<Rightarrow> rmatch option" where
  "exec_from r i [] = match_at r (i, [])"
| "exec_from r i (x # xs) =
     (case match_at r (i, x # xs) of Some m \<Rightarrow> Some m | None \<Rightarrow> exec_from r (Suc i) xs)"

definition exec :: "rx \<Rightarrow> jsstring \<Rightarrow> rmatch option" where
  "exec r s = exec_from r 0 s"

definition test :: "rx \<Rightarrow> jsstring \<Rightarrow> bool" where
  "test r s = (exec r s \<noteq> None)"

text \<open>
  \<open>String.prototype.matchAll\<close> with the flag \<open>g\<close>: the start indices are visited in order; those
  below \<open>lastIndex\<close> are skipped; a match moves \<open>lastIndex\<close> to its end, one further when the
  match is empty.
\<close>

primrec matchAll_from :: "rx \<Rightarrow> nat \<Rightarrow> nat \<Rightarrow> jsstring \<Rightarrow> rmatch list" where
  "matchAll_from r lastIndex i [] =
     (if i < lastIndex then []
      else (case match_at r (i, []) of None \<Rightarrow> [] | Some m \<Rightarrow> [m]))"
| "matchAll_from r lastIndex i (x # xs) =
     (if i < lastIndex then matchAll_from r lastIndex (Suc i) xs
      else (case match_at r (i, x # xs) of
              None \<Rightarrow> matchAll_from r lastIndex (Suc i) xs
            | Some m \<Rightarrow>
                m # matchAll_from r (if m_end m = i then Suc i else m_end m) (Suc i) xs))"

definition matchAll :: "rx \<Rightarrow> jsstring \<Rightarrow> rmatch list" where
  "matchAll r s = matchAll_from r 0 0 s"

primrec seqs :: "rx list \<Rightarrow> rx" where
  "seqs [] = Eps"
| "seqs (r # rs) = Seq r (seqs rs)"

section \<open>The reference catalog\<close>

record range =
  range_min :: real
  range_max :: real
  range_unit :: jsstring
  range_name :: jsstring

definition mk_range :: "real \<Rightarrow> real \<Rightarrow> jsstring \<Rightarrow> jsstring \<Rightarrow> range" where
  "mk_range lo hi u n = \<lparr>range_min = lo, range_max = hi, range_unit = u, range_name = n\<rparr>"

text \<open>
  \<open>NORMAL_RANGES\<close>, in the order of the object literal, which is the order in which
  \<open>Object.entries\<close> and \<open>Object.values\<close> enumerate it (no key is an array index). The fields
  \<open>range_min\<close> and \<open>range_max\<close> hold the decimal literals of the source; the numbers \<open>min\<close> and
  \<open>max\<close> of an entry are the doubles of these literals.
\<close>

definition NORMAL_RANGES :: "(jsstring \<times> range) list" where
  "NORMAL_RANGES =
   [(str ''glucose'', mk_range 70 100 (str ''mg/dL'') (str ''Glucose (Fasting)'')),
    (str ''hemoglobin'', mk_range 12 17.5 (str ''g/dL'') (str ''Hemoglobin'')),
    (str ''hematocrit'', mk_range 36 52 (str ''%'') (str ''Hematocrit'')),
    (str ''wbc'', mk_range 4.5 11 (str ''K/'' @ [956] @ str ''L'') (str ''White Blood Cell Count'')),
    (str ''rbc'', mk_range 4.5 5.9 (str ''M/'' @ [956] @ str ''L'') (str ''Red Blood Cell Count'')),
    (str ''platelets'', mk_range 150 450 (str ''K/'' @ [956] @ str ''L'') (str ''Platelet Count'')),
    (str ''cholesterol'', mk_range 0 200 (str ''mg/dL'') (str ''Total Cholesterol'')),
    (str ''ldl'', mk_range 0 100 (str ''mg/dL'') (str ''LDL Cholesterol'')),
    (str ''hdl'', mk_range 40 999 (str ''mg/dL'') (str ''HDL Cholesterol'')),
    (str ''triglycerides'', mk_range 0 150 (str ''mg/dL'') (str ''Triglycerides'')),
    (str ''creatinine'', mk_range 0.6 1.2 (str ''mg/dL'') (str ''Creatinine'')),
    (str ''bun'', mk_range 7 20 (str ''mg/dL'') (str ''BUN (Blood Urea Nitrogen)'')),
    (str ''alt'', mk_range 7 56 (str ''U/L'') (str ''ALT (Alanine Aminotransferase)'')),
    (str ''ast'', mk_range 10 40 (str ''U/L'') (str ''AST (Aspartate Aminotransferase)'')),
    (str ''tsh'', mk_range 0.4 4.0 (str ''mIU/L'') (str ''TSH (Thyroid Stimulating Hormone)'')),
    (str ''t4'', mk_range 4.5 11.2 ([956] @ str ''g/dL'') (str ''T4 (Thyroxine)'')),
    (str ''vitamin_d'', mk_range 20 50 (str ''ng/mL'') (str ''Vitamin D'')),
    (str ''b12'', mk_range 200 900 (str ''pg/mL'') (str ''Vitamin B12'')),
    (str ''iron'', mk_range 60 170 ([956] @ str ''g/dL'') (str ''Iron'')),
    (str ''ferritin'', mk_range 15 200 (str ''ng/mL'') (str ''Ferritin''))]"

definition range_values :: "range list" where
  "range_values = map snd NORMAL_RANGES"

section \<open>Value extraction: \<open>parseBloodworkText\<close>\<close>

record measurement =
  name :: jsstring
  "value" :: number
  unit :: jsstring

text \<open>
  The two generic patterns, both with the flags \<open>gi\<close>:
  \<^verbatim>\<open>/(?:^|\s)([A-Za-z\s]+(?:\([^)]+\))?)\s*:?\s*(\d+\.?\d*)\s*([a-zA-Z\/%]+)/gi\<close> and
  \<^verbatim>\<open>/(\d+\.?\d*)\s*([a-zA-Z\/%]+)\s+([A-Za-z\s]+(?:\([^)]+\))?)/gi\<close>.
\<close>

definition rx_number :: rx where
  "rx_number = seqs [Rep Digit 1, Opt (One (Lit 46)), Rep Digit 0]"

definition rx_unit :: rx where
  "rx_unit = Rep Unit_Char 1"

definition rx_name :: rx where
  "rx_name = seqs [Rep Alpha_Space 1, Opt (seqs [One (Lit 40), Rep Not_RParen 1, One (Lit 41)])]"

definition patterns :: "rx list" where
  "patterns =
   [seqs [Alt Bol (One Space), Grp 1 rx_name, Rep Space 0, Opt (One (Lit 58)), Rep Space 0,
          Grp 2 rx_number, Rep Space 0, Grp 3 rx_unit],
    seqs [Grp 1 rx_number, Rep Space 0, Grp 2 rx_unit, Rep Space 1, Grp 3 rx_name]]"

text \<open>The pattern of line 51, without flags: \<^verbatim>\<open>/(\d+\.?\d*)\s*([a-zA-Z\/%]+)/\<close>.\<close>

definition valuePattern :: rx where
  "valuePattern = seqs [Grp 1 rx_number, Rep Space 0, Grp 2 rx_unit]"

text \<open>
  \<open>new RegExp(range.name.replace(/[()]/g, "\\$&"), "i")\<close>. The replacement puts a backslash
  before each parenthesis. The catalog's names consist of letters, digits, blanks and
  parentheses, so the pattern text read back by \<open>RegExp\<close> is a sequence of pattern
  characters, an escaped one standing for itself.
\<close>

definition escape_parens :: "jsstring \<Rightarrow> jsstring" where
  "escape_parens s = concat (map (\<lambda>c. if c = 40 \<or> c = 41 then [92, c] else [c]) s)"

fun regexp_of :: "jsstring \<Rightarrow> rx" where
  "regexp_of [] = Eps"
| "regexp_of [c] = One (Lit c)"
| "regexp_of (c # d # cs) =
     (if c = 92 then Seq (One (Lit d)) (regexp_of cs) else Seq (One (Lit c)) (regexp_of (d # cs)))"

definition testNameRegex :: "range \<Rightarrow> rx" where
  "testNameRegex r = regexp_of (escape_parens (range_name r))"

text \<open>
  \<open>a || b\<close> on values that are a string or \<open>undefined\<close>: the left one when it is truthy (a
  non-empty string), else the right one. \<open>truthy\<close> is the test of \<open>if\<close> and \<open>&&\<close> on them.
\<close>

definition truthy :: "jsstring option \<Rightarrow> bool" where
  "truthy x = (case x of None \<Rightarrow> False | Some s \<Rightarrow> s \<noteq> [])"

definition or_else :: "jsstring option \<Rightarrow> jsstring option \<Rightarrow> jsstring option" where
  "or_else a b = (if truthy a then a else b)"

text \<open>
  A capture read where the type is \<open>string\<close>. Every group of the route's patterns takes part
  in every match, so the default for \<open>undefined\<close> is never used.
\<close>

definition group_str :: "jsstring option \<Rightarrow> jsstring" where
  "group_str x = (case x of None \<Rightarrow> [] | Some s \<Rightarrow> s)"

text \<open>Lines 47 to 62: the catalog entries whose name occurs in the line.\<close>

definition known_matches :: "jsstring \<Rightarrow> measurement list" where
  "known_matches line = concat (map (\<lambda>(key, r).
     if test (testNameRegex r) line then
       (case exec valuePattern line of
          None \<Rightarrow> []
        | Some valueMatch \<Rightarrow>
            [\<lparr>name = range_name r,
              value = parseFloat (m_groups valueMatch 1),
              unit = group_str (m_groups valueMatch 2)\<rparr>])
     else []) NORMAL_RANGES)"

text \<open>\<open>pieces[0]\<close> of a \<open>split\<close>, which always has a first piece.\<close>

definition first_piece :: "jsstring list \<Rightarrow> jsstring" where
  "first_piece pieces = (case pieces of [] \<Rightarrow> [] | w # _ \<Rightarrow> w)"

text \<open>Lines 74 to 77: the first catalog entry that the matched name resembles.\<close>

definition knownTest :: "jsstring \<Rightarrow> range option" where
  "knownTest testName = List.find (\<lambda>r.
     includes_str (toLowerCase (range_name r)) (toLowerCase testName) \<or>
     includes_str (toLowerCase testName) (first_piece (split 32 (toLowerCase (range_name r)))))
     range_values"

text \<open>Lines 67 to 86: what one match of a generic pattern appends.\<close>

definition generic_match :: "rmatch \<Rightarrow> measurement list" where
  "generic_match m =
    (let g = m_groups m;
         testName = or_else (map_option trim (g 1)) (map_option trim (g 3));
         v = parseFloat (or_else (g 2) (g 1));
         u = or_else (g 3) (g 2)
     in if truthy testName \<and> \<not> isNaN v \<and> truthy u then
          (case knownTest (group_str testName) of
             None \<Rightarrow> []
           | Some r \<Rightarrow> [\<lparr>name = range_name r, value = v, unit = group_str u\<rparr>])
        else [])"

definition generic_matches :: "jsstring \<Rightarrow> measurement list" where
  "generic_matches line =
     concat (map (\<lambda>pattern. concat (map generic_match (matchAll pattern line))) patterns)"

text \<open>The array \<open>results\<close> when the loop over the lines ends.\<close>

definition collect :: "jsstring \<Rightarrow> measurement list" where
  "collect text = concat (map (\<lambda>line. known_matches line @ generic_matches line) (split 10 text))"

text \<open>\<open>self.findIndex(p)\<close>: the first index whose element satisfies \<open>p\<close>, or \<open>-1\<close>.\<close>

primrec findIndex :: "('a \<Rightarrow> bool) \<Rightarrow> 'a list \<Rightarrow> int" where
  "findIndex p [] = -1"
| "findIndex p (x # xs) =
     (if p x then 0 else (let i = findIndex p xs in if i < 0 then -1 else i + 1))"

text \<open>Lines 92 to 95: an element stays when its index is the first index of its name.\<close>

definition remove_duplicates :: "measurement list \<Rightarrow> measurement list" where
  "remove_duplicates results =
     map snd (filter (\<lambda>(index, result).
        int index = findIndex (\<lambda>r. name r = name result) results)
        (enumerate 0 results))"

definition parseBloodworkText :: "jsstring \<Rightarrow> measurement list" where
  "parseBloodworkText text = remove_duplicates (collect text)"

section \<open>Clinical classification: \<open>analyzeValue\<close>\<close>

datatype status = Normal | Low | High | Critical

record analysis =
  status :: status
  normalRange :: jsstring
  explanation :: jsstring

text \<open>
  Number-to-string conversion inside the template literals. It is applied to the bounds of
  the catalog only, whose literals are non-negative and have at most one decimal digit; the
  double of such a literal is printed as the literal without a trailing zero (\<open>17.5\<close>, \<open>4\<close> for
  \<open>4.0\<close>, \<open>0.6\<close>), so the text is computed from the literal.
\<close>

definition number_text :: "real \<Rightarrow> jsstring" where
  "number_text x = (let t = nat \<lfloor>x * 10\<rfloor> in
     digits_of (t div 10) @ (if t mod 10 = 0 then [] else 46 # digits_of (t mod 10)))"

definition range_text :: "range \<Rightarrow> jsstring" where
  "range_text r =
     number_text (range_min r) @ str ''-'' @ number_text (range_max r) @ str '' '' @ range_unit r"

text \<open>Lines 117 to 124: \<open>normalizedValue\<close>.\<close>

definition normalizedValue :: "number \<Rightarrow> jsstring \<Rightarrow> range \<Rightarrow> number" where
  "normalizedValue v u r =
     (if u \<noteq> range_unit r then
        (if range_unit r = str ''mg/dL'' \<and> includes_str (toLowerCase u) (str ''mmol'')
         then num_times v (Fin 18) else v)
      else v)"

definition analyzeValue :: "jsstring \<Rightarrow> number \<Rightarrow> jsstring \<Rightarrow> analysis" where
  "analyzeValue n v u =
    (case List.find (\<lambda>r. range_name r = n) range_values of
       None \<Rightarrow>
         \<lparr>status = Normal,
          normalRange = str ''Unknown'',
          explanation = str ''This test result was found in your bloodwork. We recommend consulting with your doctor about this value.''\<rparr>
     | Some r \<Rightarrow>
         (let nv = normalizedValue v u r;
              lo = double (range_min r);
              hi = double (range_max r)
          in if num_lt nv lo then
               \<lparr>status = (if num_lt nv (num_times lo (double 0.7)) then Critical else Low),
                normalRange = range_text r,
                explanation = str ''Your '' @ n @ str '' level is below the normal range ('' @ range_text r
                  @ str ''). This could indicate a deficiency or underlying condition.''\<rparr>
             else if num_gt nv hi then
               \<lparr>status = (if num_gt nv (num_times hi (double 1.5)) then Critical else High),
                normalRange = range_text r,
                explanation = str ''Your '' @ n @ str '' level is above the normal range ('' @ range_text r
                  @ str ''). This may require medical attention.''\<rparr>
             else
               \<lparr>status = Normal,
                normalRange = range_text r,
                explanation = str ''Your '' @ n @ str '' level is within the normal range ('' @ range_text r
                  @ str ''). This is a good sign!''\<rparr>))"

section \<open>Summary synthesis: \<open>generateSummary\<close>\<close>

text \<open>
  An analysed value is \<open>{...pv, ...analysis}\<close>: the measurement extended by the fields of the
  analysis.
\<close>

type_synonym analyzed = "analysis measurement_scheme"

definition spread :: "measurement \<Rightarrow> analysis \<Rightarrow> analyzed" where
  "spread pv a = measurement.extend pv a"

definition status_of :: "analyzed \<Rightarrow> status" where
  "status_of v = status (measurement.more v)"

text \<open>The result is the pair \<open>{ summary, recommendations }\<close>.\<close>

definition generateSummary :: "analyzed list \<Rightarrow> jsstring \<times> jsstring list" where
  "generateSummary vs =
    (let flagged = filter (\<lambda>v. status_of v \<noteq> Normal) vs;
         critical = filter (\<lambda>v. status_of v = Critical) vs;
         high = filter (\<lambda>v. status_of v = High) vs;
         low = filter (\<lambda>v. status_of v = Low) vs;
         (summary, recommendations) =
           (if length critical > 0 then
              ([9888, 65039] @ str '' Your bloodwork shows '' @ digits_of (length critical)
                 @ str '' critical value(s) that require immediate medical attention. '',
               [str ''Schedule an appointment with your doctor as soon as possible.'',
                str ''If you're experiencing severe symptoms, consider seeking emergency care.''])
            else if length high > 0 \<or> length low > 0 then
              (str ''Your bloodwork shows '' @ digits_of (length flagged)
                 @ str '' value(s) outside the normal range. ''
                 @ (if length high > 0
                    then str ''You have '' @ digits_of (length high) @ str '' elevated value(s). ''
                    else [])
                 @ (if length low > 0
                    then str ''You have '' @ digits_of (length low) @ str '' low value(s). ''
                    else []),
               [str ''Consult with your healthcare provider about these results.'',
                str ''Consider lifestyle changes like diet and exercise if recommended by your doctor.''])
            else
              ([9989] @ str '' Great news! All your bloodwork values are within normal ranges. '',
               [str ''Continue maintaining a healthy lifestyle.'',
                str ''Schedule regular check-ups to monitor your health.'']))
     in (summary @ str ''Review the detailed results below for more information about each test.'',
         recommendations))"

section \<open>The upload handler: \<open>POST\<close>\<close>

record result =
  userId :: jsstring
  fileName :: jsstring
  uploadedAt :: jsstring
  "values" :: "analyzed list"
  summary :: jsstring
  recommendations :: "jsstring list"
  flaggedCount :: nat

text \<open>
  A response is \<open>NextResponse.json\<close> of an error object with its HTTP status (the fields
  \<open>error\<close>, \<open>suggestion\<close>, \<open>extractedTextPreview\<close>), or the response of the outer \<open>catch\<close> (status
  500, the error \<open>Internal server error\<close> and the message of what was thrown as \<open>details\<close>), or
  the result with the fields \<open>id\<close> and \<open>warning\<close>.
\<close>

datatype response =
    ErrorResponse nat jsstring "jsstring option" "jsstring option"
  | InternalError jsstring
  | ResultResponse result "jsstring option" "jsstring option"

record upload =
  file_name :: jsstring
  file_bytes :: "nat list"

record request =
  form_file :: "upload option"
  form_userId :: "jsstring option"

text \<open>An error of the file system, with its message.\<close>

datatype fs_error = FsError jsstring

definition message :: "fs_error \<Rightarrow> jsstring" where
  "message err = (case err of FsError m \<Rightarrow> m)"

text \<open>
  What the handler takes from its platform: the temporary directory, the clock, \<open>path.join\<close>,
  \<open>pdf-parse\<close> (\<open>None\<close> when it throws), the UTF-8 decoder of \<open>Buffer.toString\<close>, the insert
  into the table \<open>bloodwork_screenings\<close> (the new row's id, or \<open>None\<close> on a database error),
  and the faults of the file system: the error with which \<open>fs.writeFile\<close> or \<open>fs.unlink\<close>
  rejects on a path (missing permission, a read-only or full device), if it does.
\<close>

record env =
  tmpdir :: jsstring
  date_now :: nat
  path_join :: "jsstring \<Rightarrow> jsstring \<Rightarrow> jsstring"
  pdfParse :: "nat list \<Rightarrow> jsstring option"
  utf8 :: "nat list \<Rightarrow> jsstring"
  uploadedAt_iso :: jsstring
  createdAt_iso :: jsstring
  db_insert :: "jsstring \<Rightarrow> jsstring \<Rightarrow> result \<Rightarrow> jsstring \<Rightarrow> jsstring option"
  write_fault :: "jsstring \<Rightarrow> fs_error option"
  unlink_fault :: "jsstring \<Rightarrow> fs_error option"

text \<open>
  The file system is a map from paths to contents. \<open>fs.writeFile\<close> creates or replaces the
  file, unless the environment rejects the call; \<open>fs.unlink\<close> removes the file, and rejects
  when the environment does or when there is no such file. A rejected call changes nothing.
\<close>

type_synonym filesystem = "jsstring \<rightharpoonup> nat list"

definition writeFile :: "env \<Rightarrow> filesystem \<Rightarrow> jsstring \<Rightarrow> nat list \<Rightarrow> fs_error + filesystem" where
  "writeFile e fs p b =
     (case write_fault e p of Some err \<Rightarrow> Inl err | None \<Rightarrow> Inr (fs(p \<mapsto> b)))"

definition unlink :: "env \<Rightarrow> filesystem \<Rightarrow> jsstring \<Rightarrow> fs_error + filesystem" where
  "unlink e fs p =
     (case unlink_fault e p of
        Some err \<Rightarrow> Inl err
      | None \<Rightarrow>
          (case fs p of
             None \<Rightarrow> Inl (FsError (str ''ENOENT: no such file or directory, unlink '' @ [39] @ p @ [39]))
           | Some b \<Rightarrow> Inr (fs(p := None))))"

definition tempFilePath :: "env \<Rightarrow> upload \<Rightarrow> jsstring" where
  "tempFilePath e f = path_join e (tmpdir e)
     (str ''bloodwork-'' @ digits_of (date_now e) @ str ''-'' @ file_name f)"

text \<open>\<open>Array.prototype.pop\<close> read for its result: the last element, \<open>undefined\<close> on an empty array.\<close>

definition pop :: "'a list \<Rightarrow> 'a option" where
  "pop xs = (case rev xs of [] \<Rightarrow> None | x # _ \<Rightarrow> Some x)"

text \<open>
  The body of the inner \<open>try\<close> with its \<open>catch\<close> (lines 214 to 243): it ends with the extracted
  text, or with a response that the handler returns once the \<open>finally\<close> block has run.
\<close>

datatype extraction = Extracted jsstring | Returned response

definition extractText :: "env \<Rightarrow> upload \<Rightarrow> extraction" where
  "extractText e f =
    (let fileExtension = map_option toLowerCase (pop (split 46 (file_name f)))
     in if fileExtension = Some (str ''pdf'') then
          (case pdfParse e (file_bytes f) of
             Some t \<Rightarrow> Extracted t
           | None \<Rightarrow> Returned (ErrorResponse 500
               (str ''Failed to extract text from file. Please ensure it's a valid PDF or text file.'')
               None None))
        else if group_str (or_else fileExtension (Some [])) \<in>
                  set [str ''jpg'', str ''jpeg'', str ''png'', str ''gif''] then
          Returned (ErrorResponse 400
            (str ''Image files are not yet supported. Please upload a PDF file of your bloodwork results.'')
            (Some (str ''Most labs provide results in PDF format. If you only have an image, consider converting it to PDF first.''))
            None)
        else Extracted (utf8 e (file_bytes f)))"

text \<open>Lines 253 to 290: from the extracted text to the result object, or the 400 response.\<close>

definition screen :: "env \<Rightarrow> jsstring \<Rightarrow> upload \<Rightarrow> jsstring \<Rightarrow> response + result" where
  "screen e uid f extractedText =
    (let parsedValues = parseBloodworkText extractedText
     in if length parsedValues = 0 then
          Inl (ErrorResponse 400
            (str ''Could not extract bloodwork values from the file.'')
            (Some (str ''Please ensure your file contains readable bloodwork results with test names and values.''))
            (Some (take 500 extractedText)))
        else
          (let analyzedValues =
                 map (\<lambda>pv. spread pv (analyzeValue (name pv) (value pv) (unit pv))) parsedValues;
               (summary, recommendations) = generateSummary analyzedValues;
               flaggedCount = length (filter (\<lambda>v. status_of v \<noteq> Normal) analyzedValues)
           in Inr \<lparr>userId = uid,
                   fileName = file_name f,
                   uploadedAt = uploadedAt_iso e,
                   values = analyzedValues,
                   summary = summary,
                   recommendations = recommendations,
                   flaggedCount = flaggedCount\<rparr>))"

text \<open>Lines 292 to 318: the insert, and the response with the row's id or with the warning.\<close>

definition save :: "env \<Rightarrow> result \<Rightarrow> response" where
  "save e r =
    (case db_insert e (userId r) (fileName r) r (createdAt_iso e) of
       None \<Rightarrow> ResultResponse r None
                 (Some (str ''Results processed but could not be saved to database.''))
     | Some row_id \<Rightarrow> ResultResponse r (Some row_id) None)"

text \<open>
  The handler, as a function of the file system before the request to the response and the
  file system after it. A rejection of \<open>writeFile\<close> is thrown to the \<open>catch\<close> of line 319. The
  \<open>finally\<close> block runs after the inner \<open>try\<close> on each of its exits; a rejection of \<open>unlink\<close> is
  caught and logged there (lines 246 to 250), and the handler goes on. The other calls of the
  platform (the form data, the buffer, the database client) are taken not to throw.
\<close>

definition POST :: "env \<Rightarrow> request \<Rightarrow> filesystem \<Rightarrow> response \<times> filesystem" where
  "POST e req fs =
    (case form_file req of
       None \<Rightarrow> (ErrorResponse 400 (str ''No file uploaded'') None None, fs)
     | Some f \<Rightarrow>
        if \<not> truthy (form_userId req) then
          (ErrorResponse 400 (str ''userId is required'') None None, fs)
        else
          (case writeFile e fs (tempFilePath e f) (file_bytes f) of
             Inl err \<Rightarrow> (InternalError (message err), fs)
           | Inr staged \<Rightarrow>
              (let outcome = extractText e f;
                   cleaned = (case unlink e staged (tempFilePath e f) of
                                Inl err \<Rightarrow> staged
                              | Inr fs' \<Rightarrow> fs')
               in case outcome of
                    Returned resp \<Rightarrow> (resp, cleaned)
                  | Extracted extractedText \<Rightarrow>
                      (case screen e (group_str (form_userId req)) f extractedText of
                         Inl resp \<Rightarrow> (resp, cleaned)
                       | Inr r \<Rightarrow> (save e r, cleaned)))))"

section \<open>Auxiliary notions for the properties\<close>

text \<open>
  The numbers of a catalog entry are in order: both bounds and both thresholds are finite,
  and low threshold \<open>\<le>\<close> minimum \<open>\<le>\<close> maximum \<open>\<le>\<close> high threshold.
\<close>

definition thresholds_ok :: "range \<Rightarrow> bool" where
  "thresholds_ok r =
     (case (double (range_min r), double (range_max r)) of
        (Fin a, Fin c) \<Rightarrow>
          (case (num_times (Fin a) (double 0.7), num_times (Fin c) (double 1.5)) of
             (Fin b, Fin d) \<Rightarrow> b \<le> a \<and> a \<le> c \<and> c \<le> d
           | _ \<Rightarrow> False)
      | _ \<Rightarrow> False)"

text \<open>
  Keeping the first measurement of each name, written as a recursion over the list with the
  set of names seen so far.
\<close>

fun first_seen :: "jsstring set \<Rightarrow> measurement list \<Rightarrow> measurement list" where
  "first_seen seen [] = []"
| "first_seen seen (x # xs) =
     (if name x \<in> seen then first_seen seen xs else x # first_seen (insert (name x) seen) xs)"

subsection \<open>A report of two lines, and an upload of it\<close>

definition report_text :: jsstring where
  "report_text = str ''Glucose: 250 mg/dL'' @ [10] @ str ''Hemoglobin: 14 g/dL''"

definition glucose_250 :: measurement where
  "glucose_250 = \<lparr>name = str ''Glucose (Fasting)'', value = Fin 250, unit = str ''mg/dL''\<rparr>"

definition hemoglobin_14 :: measurement where
  "hemoglobin_14 = \<lparr>name = str ''Hemoglobin'', value = Fin 14, unit = str ''g/dL''\<rparr>"

definition hemoglobin_9 :: measurement where
  "hemoglobin_9 = \<lparr>name = str ''Hemoglobin'', value = Fin 9, unit = str ''g/dL''\<rparr>"

definition repeated_text :: jsstring where
  "repeated_text = str ''Hemoglobin: 14 g/dL'' @ [10] @ str ''Hemoglobin: 9 g/dL''"

definition glucose_line :: jsstring where
  "glucose_line = str ''Glucose (Fasting): 95.5 mg/dL''"

definition glucose_range :: range where
  "glucose_range = mk_range 70 100 (str ''mg/dL'') (str ''Glucose (Fasting)'')"

definition creatinine_range :: range where
  "creatinine_range = mk_range 0.6 1.2 (str ''mg/dL'') (str ''Creatinine'')"

definition hdl_range :: range where
  "hdl_range = mk_range 40 999 (str ''mg/dL'') (str ''HDL Cholesterol'')"

text \<open>Two lines of the form name, colon, value, unit for catalog entries whose unit has U+03BC.\<close>

definition iron_line :: jsstring where
  "iron_line = str ''Iron: 100 '' @ [956] @ str ''g/dL''"

definition wbc_line :: jsstring where
  "wbc_line = str ''White Blood Cell Count: 7 K/'' @ [956] @ str ''L''"

definition example_env :: env where
  "example_env =
    \<lparr>tmpdir = str ''/tmp'',
     date_now = 1700000000000,
     path_join = (\<lambda>d n. d @ str ''/'' @ n),
     pdfParse = (\<lambda>b. None),
     utf8 = (\<lambda>b. b),
     uploadedAt_iso = str ''2024-01-01T00:00:00.000Z'',
     createdAt_iso = str ''2024-01-01T00:00:00.001Z'',
     db_insert = (\<lambda>u n r c. Some (str ''7'')),
     write_fault = (\<lambda>p. None),
     unlink_fault = (\<lambda>p. None)\<rparr>"

text \<open>The same environment, on a file system that lets files be created but not removed.\<close>

definition locked_env :: env where
  "locked_env =
     example_env\<lparr>unlink_fault := (\<lambda>p. Some (FsError (str ''EPERM: operation not permitted'')))\<rparr>"

definition text_upload :: upload where
  "text_upload = \<lparr>file_name = str ''report.txt'', file_bytes = report_text\<rparr>"

definition broken_pdf_upload :: upload where
  "broken_pdf_upload = \<lparr>file_name = str ''report.PDF'', file_bytes = [37, 80]\<rparr>"

definition image_upload :: upload where
  "image_upload = \<lparr>file_name = str ''scan.png'', file_bytes = [137, 80]\<rparr>"

definition request_of :: "upload \<Rightarrow> request" where
  "request_of f = \<lparr>form_file = Some f, form_userId = Some (str ''user_1'')\<rparr>"

definition critical_mix :: "analyzed list" where
  "critical_mix =
    [spread glucose_250 \<lparr>status = Critical, normalRange = [], explanation = []\<rparr>,
     spread hemoglobin_14 \<lparr>status = High, normalRange = [], explanation = []\<rparr>,
     spread hemoglobin_14 \<lparr>status = High, normalRange = [], explanation = []\<rparr>,
     spread hemoglobin_14 \<lparr>status = Low, normalRange = [], explanation = []\<rparr>]"

definition flagged_mix :: "analyzed list" where
  "flagged_mix =
    [spread hemoglobin_14 \<lparr>status = High, normalRange = [], explanation = []\<rparr>,
     spread hemoglobin_14 \<lparr>status = Normal, normalRange = [], explanation = []\<rparr>,
     spread hemoglobin_14 \<lparr>status = Low, normalRange = [], explanation = []\<rparr>]"

definition all_normal :: "analyzed list" where
  "all_normal =
    [spread hemoglobin_14 \<lparr>status = Normal, normalRange = [], explanation = []\<rparr>]"

section \<open>Evaluation rules\<close>

lemmas rx_eval = exec_def match_at_def test_def matchAll_def valuePattern_def patterns_def
  rx_number_def rx_unit_def rx_name_def testNameRegex_def escape_parens_def
  is_digit_def is_lower_def is_upper_def is_space_def ascii_upper_def

lemmas double_eval = double_def round_positive_def round_half_even_def binary_exponent_def
  pow2_def bit_length.simps Let_def

lemmas str_eval = str_def toLowerCase_def lower_unit_def trim_def truthy_def or_else_def
  group_str_def first_piece_def parseFloat_def isNaN_def digits_value_def double_eval

lemmas catalog_eval = NORMAL_RANGES_def range_values_def mk_range_def

section \<open>Classification\<close>

lemma find_Some_mem: "List.find P xs = Some x \<Longrightarrow> x \<in> set xs \<and> P x"
  by (induction xs) (auto split: if_splits)

lemma catalog_thresholds_ok: "list_all thresholds_ok range_values"
  by (simp add: thresholds_ok_def catalog_eval double_eval)

lemma catalog_thresholds:
  assumes "r \<in> set range_values"
  shows "\<exists>a b c d. double (range_min r) = Fin a \<and> num_times (Fin a) (double 0.7) = Fin b \<and>
           double (range_max r) = Fin c \<and> num_times (Fin c) (double 1.5) = Fin d \<and>
           b \<le> a \<and> a \<le> c \<and> c \<le> d"
proof -
  from assms catalog_thresholds_ok have "thresholds_ok r"
    by (simp add: list_all_iff)
  then show ?thesis
    unfolding thresholds_ok_def
    by (cases "double (range_min r)"; cases "double (range_max r)";
        cases "num_times (double (range_min r)) (double 0.7)";
        cases "num_times (double (range_max r)) (double 1.5)") simp_all
qed

lemma status_by_thresholds:
  assumes found: "List.find (\<lambda>r. range_name r = n) range_values = Some r"
    and numbers: "double (range_min r) = Fin a" "num_times (Fin a) (double 0.7) = Fin b"
      "double (range_max r) = Fin c" "num_times (Fin c) (double 1.5) = Fin d"
    and order: "b \<le> a" "a \<le> c" "c \<le> d"
  shows "(num_lt (normalizedValue v u r) (Fin b) \<longrightarrow> status (analyzeValue n v u) = Critical) \<and>
         (num_le (Fin b) (normalizedValue v u r) \<and> num_lt (normalizedValue v u r) (Fin a)
            \<longrightarrow> status (analyzeValue n v u) = Low) \<and>
         (num_gt (normalizedValue v u r) (Fin d) \<longrightarrow> status (analyzeValue n v u) = Critical) \<and>
         (num_gt (normalizedValue v u r) (Fin c) \<and> num_le (normalizedValue v u r) (Fin d)
            \<longrightarrow> status (analyzeValue n v u) = High) \<and>
         (num_le (Fin a) (normalizedValue v u r) \<and> num_le (normalizedValue v u r) (Fin c)
            \<longrightarrow> status (analyzeValue n v u) = Normal)"
proof (cases "normalizedValue v u r")
  case (Fin x)
  then show ?thesis
    using found numbers order by (auto simp: analyzeValue_def Let_def num_gt_def num_le_def)
next
  case PosInf
  then show ?thesis
    using found numbers order by (auto simp: analyzeValue_def Let_def num_gt_def num_le_def)
next
  case NegInf
  then show ?thesis
    using found numbers order by (auto simp: analyzeValue_def Let_def num_gt_def num_le_def)
next
  case NaN
  then show ?thesis
    using found numbers order by (auto simp: analyzeValue_def Let_def num_gt_def num_le_def)
qed

lemma glucose_found:
  "List.find (\<lambda>r. range_name r = str ''Glucose (Fasting)'') range_values = Some glucose_range"
  by (simp add: glucose_range_def catalog_eval str_def)

lemma hdl_found:
  "List.find (\<lambda>r. range_name r = str ''HDL Cholesterol'') range_values = Some hdl_range"
  by (simp add: hdl_range_def catalog_eval str_def)

lemma creatinine_found:
  "List.find (\<lambda>r. range_name r = str ''Creatinine'') range_values = Some creatinine_range"
  by (simp add: creatinine_range_def catalog_eval str_def)

text \<open>The thresholds of glucose are exact in double arithmetic: 49 and 150.\<close>

lemma glucose_numbers:
  "double 70 = Fin 70" "num_times (Fin 70) (double 0.7) = Fin 49"
  "double 100 = Fin 100" "num_times (Fin 100) (double 1.5) = Fin 150"
  by (simp_all add: double_eval)

lemma glucose_status:
  "status (analyzeValue (str ''Glucose (Fasting)'') (Fin x) (str ''mg/dL'')) =
     (if x < 70 then (if x < 49 then Critical else Low)
      else if 100 < x then (if 150 < x then Critical else High)
      else Normal)"
  unfolding analyzeValue_def glucose_found
  by (simp add: glucose_range_def mk_range_def normalizedValue_def num_gt_def double_eval)

lemma glucose_example_numbers:
  "double 69.9 = Fin (2459387609009357 / 35184372088832)"
  "double 48.9 = Fin (6882063180575539 / 140737488355328)"
  "double 100.1 = Fin (3521955646092083 / 35184372088832)"
  "double 150.1 = Fin (5281174250533683 / 35184372088832)"
  "double 85 = Fin 85"
  by (simp_all add: double_eval)

text \<open>
  C1, as the code has it. For a measurement whose name has a catalog range \<open>r\<close>, let \<open>nv\<close> be the
  value that \<open>analyzeValue\<close> compares (the measurement's value after the unit step of lines 117
  to 124; the value itself when the unit is the range's unit), \<open>min\<close> and \<open>max\<close> the doubles of
  the bounds, and let the thresholds be the products in double arithmetic, \<open>min * 0.7\<close> and
  \<open>max * 1.5\<close> as lines 131 and 134 compute them. Then the status is critical when \<open>nv\<close> is below
  the low threshold, low from the low threshold up to \<open>min\<close>, critical above the high threshold,
  high above \<open>max\<close> up to the high threshold, and normal from \<open>min\<close> to \<open>max\<close>. For glucose in
  mg/dL the numbers 69.9, 48.9, 100.1, 150.1 and 85 are low, critical, high, critical and
  normal.
\<close>

theorem analyzeValue_double_thresholds:
  assumes "List.find (\<lambda>r. range_name r = n) range_values = Some r"
  shows "(num_lt (normalizedValue v u r) (num_times (double (range_min r)) (double 0.7))
            \<longrightarrow> status (analyzeValue n v u) = Critical) \<and>
         (num_le (num_times (double (range_min r)) (double 0.7)) (normalizedValue v u r) \<and>
          num_lt (normalizedValue v u r) (double (range_min r))
            \<longrightarrow> status (analyzeValue n v u) = Low) \<and>
         (num_gt (normalizedValue v u r) (num_times (double (range_max r)) (double 1.5))
            \<longrightarrow> status (analyzeValue n v u) = Critical) \<and>
         (num_gt (normalizedValue v u r) (double (range_max r)) \<and>
          num_le (normalizedValue v u r) (num_times (double (range_max r)) (double 1.5))
            \<longrightarrow> status (analyzeValue n v u) = High) \<and>
         (num_le (double (range_min r)) (normalizedValue v u r) \<and>
          num_le (normalizedValue v u r) (double (range_max r))
            \<longrightarrow> status (analyzeValue n v u) = Normal) \<and>
         (u = range_unit r \<longrightarrow> normalizedValue v u r = v) \<and>
         status (analyzeValue (str ''Glucose (Fasting)'') (double 69.9) (str ''mg/dL'')) = Low \<and>
         status (analyzeValue (str ''Glucose (Fasting)'') (double 48.9) (str ''mg/dL'')) = Critical \<and>
         status (analyzeValue (str ''Glucose (Fasting)'') (double 100.1) (str ''mg/dL'')) = High \<and>
         status (analyzeValue (str ''Glucose (Fasting)'') (double 150.1) (str ''mg/dL'')) = Critical \<and>
         status (analyzeValue (str ''Glucose (Fasting)'') (double 85) (str ''mg/dL'')) = Normal"
proof -
  from assms have "r \<in> set range_values"
    by (auto dest: find_Some_mem)
  then obtain a b c d where numbers:
    "double (range_min r) = Fin a" "num_times (Fin a) (double 0.7) = Fin b"
    "double (range_max r) = Fin c" "num_times (Fin c) (double 1.5) = Fin d"
    and order: "b \<le> a" "a \<le> c" "c \<le> d"
    using catalog_thresholds by blast
  have general: "(num_lt (normalizedValue v u r) (Fin b) \<longrightarrow> status (analyzeValue n v u) = Critical) \<and>
         (num_le (Fin b) (normalizedValue v u r) \<and> num_lt (normalizedValue v u r) (Fin a)
            \<longrightarrow> status (analyzeValue n v u) = Low) \<and>
         (num_gt (normalizedValue v u r) (Fin d) \<longrightarrow> status (analyzeValue n v u) = Critical) \<and>
         (num_gt (normalizedValue v u r) (Fin c) \<and> num_le (normalizedValue v u r) (Fin d)
            \<longrightarrow> status (analyzeValue n v u) = High) \<and>
         (num_le (Fin a) (normalizedValue v u r) \<and> num_le (normalizedValue v u r) (Fin c)
            \<longrightarrow> status (analyzeValue n v u) = Normal)"
    using assms numbers order by (rule status_by_thresholds)
  have same_unit: "u = range_unit r \<longrightarrow> normalizedValue v u r = v"
    by (simp add: normalizedValue_def)
  have examples:
    "status (analyzeValue (str ''Glucose (Fasting)'') (double 69.9) (str ''mg/dL'')) = Low"
    "status (analyzeValue (str ''Glucose (Fasting)'') (double 48.9) (str ''mg/dL'')) = Critical"
    "status (analyzeValue (str ''Glucose (Fasting)'') (double 100.1) (str ''mg/dL'')) = High"
    "status (analyzeValue (str ''Glucose (Fasting)'') (double 150.1) (str ''mg/dL'')) = Critical"
    "status (analyzeValue (str ''Glucose (Fasting)'') (double 85) (str ''mg/dL'')) = Normal"
    unfolding glucose_example_numbers by (simp_all add: glucose_status)
  from general same_unit examples show ?thesis
    unfolding numbers by blast
qed

theorem analyzeValue_double_thresholds_witness:
  "List.find (\<lambda>r. range_name r = str ''Hemoglobin'') range_values
      = Some (mk_range 12 17.5 (str ''g/dL'') (str ''Hemoglobin'')) \<and>
   status (analyzeValue (str ''Hemoglobin'') (Fin 8) (str ''g/dL'')) = Critical \<and>
   status (analyzeValue (str ''Hemoglobin'') (Fin 9) (str ''g/dL'')) = Low \<and>
   status (analyzeValue (str ''Hemoglobin'') (Fin 27) (str ''g/dL'')) = Critical \<and>
   status (analyzeValue (str ''Hemoglobin'') (Fin 26) (str ''g/dL'')) = High \<and>
   status (analyzeValue (str ''Hemoglobin'') (Fin 17.5) (str ''g/dL'')) = Normal"
proof -
  have found: "List.find (\<lambda>r. range_name r = str ''Hemoglobin'') range_values
      = Some (mk_range 12 17.5 (str ''g/dL'') (str ''Hemoglobin''))"
    by (simp add: catalog_eval str_def)
  note clauses = analyzeValue_double_thresholds [OF found]
  have critical_low: "status (analyzeValue (str ''Hemoglobin'') (Fin 8) (str ''g/dL'')) = Critical"
    using clauses [of "Fin 8" "str ''g/dL''", THEN conjunct1]
    by (simp add: normalizedValue_def mk_range_def double_eval)
  have low: "status (analyzeValue (str ''Hemoglobin'') (Fin 9) (str ''g/dL'')) = Low"
    using clauses [of "Fin 9" "str ''g/dL''", THEN conjunct2, THEN conjunct1]
    by (simp add: normalizedValue_def mk_range_def num_le_def double_eval)
  have critical_high: "status (analyzeValue (str ''Hemoglobin'') (Fin 27) (str ''g/dL'')) = Critical"
    using clauses [of "Fin 27" "str ''g/dL''", THEN conjunct2, THEN conjunct2, THEN conjunct1]
    by (simp add: normalizedValue_def mk_range_def num_gt_def double_eval)
  have high: "status (analyzeValue (str ''Hemoglobin'') (Fin 26) (str ''g/dL'')) = High"
    using clauses [of "Fin 26" "str ''g/dL''", THEN conjunct2, THEN conjunct2, THEN conjunct2,
        THEN conjunct1]
    by (simp add: normalizedValue_def mk_range_def num_gt_def num_le_def double_eval)
  have normal: "status (analyzeValue (str ''Hemoglobin'') (Fin 17.5) (str ''g/dL'')) = Normal"
    using clauses [of "Fin 17.5" "str ''g/dL''", THEN conjunct2, THEN conjunct2, THEN conjunct2,
        THEN conjunct2, THEN conjunct1]
    by (simp add: normalizedValue_def mk_range_def num_le_def double_eval)
  from found critical_low low critical_high high normal show ?thesis
    by simp
qed

text \<open>
  The claim C1 as it is written fails at two measurements. Creatinine has the range 0.6 to
  1.2 mg/dL; the value 1.8 mg/dL is above 1.2 and not above \<open>1.2 * 1.5 = 1.8\<close>, so the claim
  says high; in double arithmetic the product is 1.7999999999999998, below the number 1.8,
  and the status is critical. Glucose of 5 mmol/L is below \<open>70 * 0.7 = 49\<close>, so the claim says
  critical; the value compared is 90, and the status is normal.
\<close>

theorem analyzeValue_thresholds_counterexample:
  "List.find (\<lambda>r. range_name r = str ''Creatinine'') range_values
     = Some (mk_range 0.6 1.2 (str ''mg/dL'') (str ''Creatinine'')) \<and>
   (1.2 :: real) < 1.8 \<and> (1.8 :: real) \<le> 1.2 * 1.5 \<and>
   parseFloat (Some (str ''1.8'')) = double 1.8 \<and>
   double 1.8 = Fin (8106479329266893 / 4503599627370496) \<and>
   num_times (double 1.2) (double 1.5) = Fin (8106479329266892 / 4503599627370496) \<and>
   status (analyzeValue (str ''Creatinine'') (double 1.8) (str ''mg/dL'')) = Critical \<and>
   List.find (\<lambda>r. range_name r = str ''Glucose (Fasting)'') range_values
     = Some (mk_range 70 100 (str ''mg/dL'') (str ''Glucose (Fasting)'')) \<and>
   (5 :: real) < 70 * 0.7 \<and>
   status (analyzeValue (str ''Glucose (Fasting)'') (Fin 5) (str ''mmol/L'')) = Normal"
proof -
  have creatinine: "List.find (\<lambda>r. range_name r = str ''Creatinine'') range_values
     = Some (mk_range 0.6 1.2 (str ''mg/dL'') (str ''Creatinine''))"
    using creatinine_found by (simp add: creatinine_range_def)
  have glucose: "List.find (\<lambda>r. range_name r = str ''Glucose (Fasting)'') range_values
     = Some (mk_range 70 100 (str ''mg/dL'') (str ''Glucose (Fasting)''))"
    using glucose_found by (simp add: glucose_range_def)
  have parsed: "parseFloat (Some (str ''1.8'')) = double 1.8"
    by (simp add: parseFloat_def str_def is_digit_def digits_value_def)
  have number: "double 1.8 = Fin (8106479329266893 / 4503599627370496)"
    by (simp add: double_eval)
  have threshold: "num_times (double 1.2) (double 1.5) = Fin (8106479329266892 / 4503599627370496)"
    by (simp add: double_eval)
  have critical: "status (analyzeValue (str ''Creatinine'') (double 1.8) (str ''mg/dL'')) = Critical"
    unfolding analyzeValue_def creatinine
    by (simp add: mk_range_def normalizedValue_def num_gt_def double_eval)
  have normal: "status (analyzeValue (str ''Glucose (Fasting)'') (Fin 5) (str ''mmol/L'')) = Normal"
    unfolding analyzeValue_def glucose
    by (simp add: mk_range_def normalizedValue_def num_gt_def double_eval
        str_def toLowerCase_def lower_unit_def is_upper_def)
  from creatinine glucose parsed number threshold critical normal show ?thesis
    by simp
qed

text \<open>
  C3, at a measurement that is not a glucose value: HDL cholesterol of 5 mmol/L is
  multiplied by 18 as well, so 90 is compared with the range 40 to 999 and the status is
  normal, although 5 itself is below \<open>40 * 0.7\<close>.
\<close>

theorem mmol_conversion_not_only_glucose:
  "List.find (\<lambda>r. range_name r = str ''HDL Cholesterol'') range_values = Some hdl_range \<and>
   normalizedValue (Fin 5) (str ''mmol/L'') hdl_range = Fin 90 \<and>
   status (analyzeValue (str ''HDL Cholesterol'') (Fin 5) (str ''mmol/L'')) = Normal \<and>
   num_lt (Fin 5) (Fin (range_min hdl_range * 0.7))"
  unfolding analyzeValue_def hdl_found
  by (simp add: hdl_range_def mk_range_def normalizedValue_def num_gt_def double_eval
      str_def toLowerCase_def lower_unit_def is_upper_def)

text \<open>
  What the unit step does in general, and the glucose example of the specification: a
  measurement in mmol/L against a range in mg/dL is multiplied by 18, every other value is
  compared as it is; glucose of 5 mmol/L becomes 90 and is normal.
\<close>

lemma normalizedValue_cases:
  "normalizedValue v u r =
     (if u \<noteq> range_unit r \<and> range_unit r = str ''mg/dL'' \<and>
         includes_str (toLowerCase u) (str ''mmol'')
      then num_times v (Fin 18) else v)"
  by (auto simp: normalizedValue_def)

lemma glucose_mmol_example:
  "normalizedValue (Fin 5) (str ''mmol/L'') glucose_range = Fin 90 \<and>
   status (analyzeValue (str ''Glucose (Fasting)'') (Fin 5) (str ''mmol/L'')) = Normal"
  unfolding analyzeValue_def glucose_found
  by (simp add: glucose_range_def mk_range_def normalizedValue_def num_gt_def double_eval
      str_def toLowerCase_def lower_unit_def is_upper_def)

text \<open>
  C8. A name that is the display name of no catalog entry gets the status normal, the range
  \<open>Unknown\<close> and the generic explanation, whatever the value and the unit.
\<close>

theorem analyzeValue_unknown_name:
  assumes "n \<notin> range_name ` set range_values"
  shows "analyzeValue n v u =
     \<lparr>status = Normal,
      normalRange = str ''Unknown'',
      explanation = str ''This test result was found in your bloodwork. We recommend consulting with your doctor about this value.''\<rparr>"
proof -
  have "List.find (\<lambda>r. range_name r = n) range_values = None"
    using assms by (auto simp: find_None_iff)
  then show ?thesis
    by (simp add: analyzeValue_def)
qed

theorem analyzeValue_unknown_name_witness:
  "str ''glucose (fasting)'' \<notin> range_name ` set range_values \<and>
   status (analyzeValue (str ''glucose (fasting)'') (Fin 9999) (str ''mg/dL'')) = Normal \<and>
   normalRange (analyzeValue (str ''glucose (fasting)'') (Fin 9999) (str ''mg/dL'')) = str ''Unknown''"
proof -
  have unknown: "str ''glucose (fasting)'' \<notin> range_name ` set range_values"
    by (simp add: catalog_eval str_def)
  show ?thesis
    using unknown analyzeValue_unknown_name [OF unknown, of "Fin 9999" "str ''mg/dL''"] by simp
qed

section \<open>Value extraction\<close>

subsection \<open>Removing duplicates keeps the first measurement of each name\<close>

lemma findIndex_append:
  "findIndex p (pre @ x # rest) = int (length pre) \<longleftrightarrow> (\<forall>y\<in>set pre. \<not> p y) \<and> p x"
proof (induction pre)
  case Nil
  have "0 \<le> findIndex p rest \<or> findIndex p rest < 0"
    by linarith
  then show ?case
    by (auto simp: Let_def)
next
  case (Cons a pre)
  then show ?case
    by (auto simp: Let_def)
qed

lemma remove_duplicates_from:
  "map snd (filter (\<lambda>(index, result).
       int index = findIndex (\<lambda>r. name r = name result) (pre @ rest))
     (enumerate (length pre) rest)) = first_seen (name ` set pre) rest"
proof (induction rest arbitrary: pre)
  case Nil
  then show ?case by simp
next
  case (Cons x rest)
  have tail: "map snd (filter (\<lambda>(index, result).
        int index = findIndex (\<lambda>r. name r = name result) (pre @ x # rest))
      (enumerate (Suc (length pre)) rest)) = first_seen (insert (name x) (name ` set pre)) rest"
    using Cons.IH [of "pre @ [x]"] by simp
  have "findIndex (\<lambda>r. name r = name x) (pre @ x # rest) = int (length pre)
          \<longleftrightarrow> (\<forall>y\<in>set pre. name y \<noteq> name x)"
    by (simp add: findIndex_append)
  then have head: "int (length pre) = findIndex (\<lambda>r. name r = name x) (pre @ x # rest)
          \<longleftrightarrow> name x \<notin> name ` set pre"
    by (metis (mono_tags, lifting) image_iff)
  show ?case
  proof (cases "name x \<in> name ` set pre")
    case True
    then have "insert (name x) (name ` set pre) = name ` set pre"
      by auto
    with True tail head show ?thesis by simp
  next
    case False
    with tail head show ?thesis by simp
  qed
qed

lemma remove_duplicates_first_seen: "remove_duplicates xs = first_seen {} xs"
  using remove_duplicates_from [of "[]" xs] by (simp add: remove_duplicates_def)

lemma first_seen_names: "name ` set (first_seen seen xs) \<inter> seen = {}"
  by (induction xs arbitrary: seen) auto

lemma first_seen_distinct: "distinct (map name (first_seen seen xs))"
proof (induction xs arbitrary: seen)
  case Nil
  then show ?case by simp
next
  case (Cons x xs)
  show ?case
    using Cons.IH first_seen_names [of "insert (name x) seen" xs] by auto
qed

lemma first_seen_subseq: "subseq (first_seen seen xs) xs"
  by (induction xs arbitrary: seen) auto

lemma first_seen_subset: "set (first_seen seen xs) \<subseteq> set xs"
  by (induction xs arbitrary: seen) auto

lemma first_seen_find:
  "List.find (\<lambda>r. name r = n) (first_seen seen xs) =
     (if n \<in> seen then None else List.find (\<lambda>r. name r = n) xs)"
  by (induction xs arbitrary: seen) auto

lemma remdups_snoc: "remdups (zs @ [y]) = filter (\<lambda>z. z \<noteq> y) (remdups zs) @ [y]"
  by (induction zs) auto

lemma first_names_Cons:
  "rev (remdups (rev (y # ys))) = y # filter (\<lambda>z. z \<noteq> y) (rev (remdups (rev ys)))"
  by (simp add: remdups_snoc rev_filter)

lemma first_seen_name_order:
  "map name (first_seen seen xs) =
     filter (\<lambda>n. n \<notin> seen) (rev (remdups (rev (map name xs))))"
proof (induction xs arbitrary: seen)
  case Nil
  then show ?case by simp
next
  case (Cons x xs)
  have order: "rev (remdups (rev (map name (x # xs)))) =
      name x # filter (\<lambda>z. z \<noteq> name x) (rev (remdups (rev (map name xs))))"
    using first_names_Cons [of "name x" "map name xs"] by simp
  show ?case
  proof (cases "name x \<in> seen")
    case True
    then have "filter (\<lambda>n. n \<notin> seen) (filter (\<lambda>z. z \<noteq> name x) ns) =
        filter (\<lambda>n. n \<notin> seen) ns" for ns
      by (auto intro: filter_cong)
    with True Cons.IH [of seen] show ?thesis
      unfolding order by simp
  next
    case False
    have "filter (\<lambda>n. n \<notin> seen) (filter (\<lambda>z. z \<noteq> name x) ns) =
        filter (\<lambda>n. n \<notin> insert (name x) seen) ns" for ns
      by (auto intro: filter_cong)
    with False Cons.IH [of "insert (name x) seen"] show ?thesis
      unfolding order by simp
  qed
qed

text \<open>
  C4. For every text the output is the list of appended measurements with every measurement
  dropped whose name was appended before. So it has at most one measurement per name; its
  names are the names of the appended measurements in the order of their first occurrence
  (\<open>remdups\<close> keeps last occurrences, hence the two reversals); it is a subsequence of the
  appended measurements; and for every name the measurement it holds is the first one
  appended with that name, whatever the later ones say.
\<close>

theorem parseBloodworkText_first_seen:
  "parseBloodworkText t = first_seen {} (collect t) \<and>
   distinct (map name (parseBloodworkText t)) \<and>
   map name (parseBloodworkText t) = rev (remdups (rev (map name (collect t)))) \<and>
   subseq (parseBloodworkText t) (collect t) \<and>
   (\<forall>n. List.find (\<lambda>r. name r = n) (parseBloodworkText t) =
        List.find (\<lambda>r. name r = n) (collect t))"
  by (simp add: parseBloodworkText_def remove_duplicates_first_seen first_seen_distinct
      first_seen_subseq first_seen_find first_seen_name_order)

subsection \<open>Every extracted name is a catalog name\<close>

lemma known_matches_names:
  assumes "m \<in> set (known_matches l)"
  shows "name m \<in> range_name ` set range_values"
proof -
  define f where "f = (\<lambda>(key :: jsstring, r).
     if test (testNameRegex r) l then
       (case exec valuePattern l of
          None \<Rightarrow> []
        | Some valueMatch \<Rightarrow>
            [\<lparr>name = range_name r,
              value = parseFloat (m_groups valueMatch 1),
              unit = group_str (m_groups valueMatch 2)\<rparr>])
     else [])"
  have "known_matches l = concat (map f NORMAL_RANGES)"
    by (simp add: known_matches_def f_def)
  with assms obtain kr where kr: "kr \<in> set NORMAL_RANGES" and m: "m \<in> set (f kr)"
    by auto
  have "f kr = [] \<or> (\<exists>v u. f kr = [\<lparr>name = range_name (snd kr), value = v, unit = u\<rparr>])"
    by (cases kr) (simp add: f_def split: option.splits)
  with m have "name m = range_name (snd kr)"
    by auto
  moreover from kr have "snd kr \<in> set range_values"
    by (simp add: range_values_def)
  ultimately show ?thesis by simp
qed

lemma generic_match_names:
  assumes "m \<in> set (generic_match mt)"
  shows "name m \<in> range_name ` set range_values"
proof -
  have "generic_match mt = [] \<or>
     (\<exists>tn r v u. knownTest tn = Some r \<and>
        generic_match mt = [\<lparr>name = range_name r, value = v, unit = u\<rparr>])"
    by (cases "knownTest (group_str (or_else (map_option trim (m_groups mt 1))
          (map_option trim (m_groups mt 3))))")
      (auto simp: generic_match_def Let_def)
  with assms obtain tn r where known: "knownTest tn = Some r" and "name m = range_name r"
    by auto
  moreover from known have "r \<in> set range_values"
    by (auto simp: knownTest_def dest: find_Some_mem)
  ultimately show ?thesis by simp
qed

lemma collect_names:
  assumes "m \<in> set (collect t)"
  shows "name m \<in> range_name ` set range_values"
proof -
  from assms obtain l where "m \<in> set (known_matches l) \<or> m \<in> set (generic_matches l)"
    by (auto simp: collect_def)
  then show ?thesis
  proof
    assume "m \<in> set (known_matches l)"
    then show ?thesis by (rule known_matches_names)
  next
    assume "m \<in> set (generic_matches l)"
    then obtain mt where "m \<in> set (generic_match mt)"
      by (auto simp: generic_matches_def)
    then show ?thesis by (rule generic_match_names)
  qed
qed

lemma parse_subset: "set (parseBloodworkText t) \<subseteq> set (collect t)"
  by (simp add: parseBloodworkText_def remove_duplicates_first_seen first_seen_subset)

lemma digits_of_head: "digits_of n \<noteq> [] \<and> hd (digits_of n) \<le> 57"
proof (induction n rule: digits_of.induct)
  case (1 n)
  have eq: "digits_of n = (if n < 10 then [48 + n] else digits_of (n div 10) @ [48 + n mod 10])"
    by (rule digits_of.simps)
  show ?case
  proof (cases "n < 10")
    case True
    with eq have "digits_of n = [48 + n]" by simp
    with True show ?thesis by simp
  next
    case False
    with eq have unfolded: "digits_of n = digits_of (n div 10) @ [48 + n mod 10]" by simp
    from False 1 have "digits_of (n div 10) \<noteq> [] \<and> hd (digits_of (n div 10)) \<le> 57" by simp
    then show ?thesis by (simp add: unfolded)
  qed
qed

lemma range_text_not_Unknown: "range_text r \<noteq> str ''Unknown''"
proof
  assume unknown: "range_text r = str ''Unknown''"
  obtain t where first: "hd (range_text r) = hd (digits_of t)"
    using digits_of_head by (auto simp: range_text_def number_text_def Let_def)
  have "hd (str ''Unknown'') = 85"
    by (simp add: str_def)
  with unknown first digits_of_head [of t] show False by simp
qed

subsection \<open>The report of two lines\<close>

lemma report_lines:
  "split 10 report_text = [str ''Glucose: 250 mg/dL'', str ''Hemoglobin: 14 g/dL'']"
  by (simp add: report_text_def str_def)

lemma report_line1_known: "known_matches (str ''Glucose: 250 mg/dL'') = []"
  by (simp add: known_matches_def rx_eval str_eval catalog_eval)

lemma report_line1_generic: "generic_matches (str ''Glucose: 250 mg/dL'') = [glucose_250]"
  by (simp add: glucose_250_def generic_matches_def generic_match_def knownTest_def
      rx_eval str_eval catalog_eval)

lemma report_line2_known: "known_matches (str ''Hemoglobin: 14 g/dL'') = [hemoglobin_14]"
  by (simp add: hemoglobin_14_def known_matches_def rx_eval str_eval catalog_eval)

lemma report_line2_generic: "generic_matches (str ''Hemoglobin: 14 g/dL'') = [hemoglobin_14]"
  by (simp add: hemoglobin_14_def generic_matches_def generic_match_def knownTest_def
      rx_eval str_eval catalog_eval)

lemma report_collect: "collect report_text = [glucose_250, hemoglobin_14, hemoglobin_14]"
  by (simp add: collect_def report_lines report_line1_known report_line1_generic
      report_line2_known report_line2_generic)

lemma report_parse: "parseBloodworkText report_text = [glucose_250, hemoglobin_14]"
  by (simp add: parseBloodworkText_def report_collect remove_duplicates_def
      glucose_250_def hemoglobin_14_def str_def)

text \<open>The same test on two lines with different values: the first value stays.\<close>

lemma repeated_lines:
  "split 10 repeated_text = [str ''Hemoglobin: 14 g/dL'', str ''Hemoglobin: 9 g/dL'']"
  by (simp add: repeated_text_def str_def)

lemma repeated_line2_known: "known_matches (str ''Hemoglobin: 9 g/dL'') = [hemoglobin_9]"
  by (simp add: hemoglobin_9_def known_matches_def rx_eval str_eval catalog_eval)

lemma repeated_line2_generic: "generic_matches (str ''Hemoglobin: 9 g/dL'') = [hemoglobin_9]"
  by (simp add: hemoglobin_9_def generic_matches_def generic_match_def knownTest_def
      rx_eval str_eval catalog_eval)

lemma repeated_name_example:
  "collect repeated_text = [hemoglobin_14, hemoglobin_14, hemoglobin_9, hemoglobin_9] \<and>
   parseBloodworkText repeated_text = [hemoglobin_14]"
proof -
  have all: "collect repeated_text = [hemoglobin_14, hemoglobin_14, hemoglobin_9, hemoglobin_9]"
    by (simp add: collect_def repeated_lines report_line2_known report_line2_generic
        repeated_line2_known repeated_line2_generic)
  then have "parseBloodworkText repeated_text = [hemoglobin_14]"
    by (simp add: parseBloodworkText_def remove_duplicates_def hemoglobin_14_def hemoglobin_9_def)
  with all show ?thesis by simp
qed

text \<open>
  A line of the form name, colon, value, unit for an entry whose unit is ASCII: one
  measurement, with the entry's name and unit and the value of the line.
\<close>

lemma glucose_line_example:
  "parseBloodworkText glucose_line =
     [\<lparr>name = str ''Glucose (Fasting)'', value = Fin 95.5, unit = str ''mg/dL''\<rparr>]"
proof -
  have known: "known_matches glucose_line =
     [\<lparr>name = str ''Glucose (Fasting)'', value = Fin 95.5, unit = str ''mg/dL''\<rparr>]"
    by (simp add: glucose_line_def known_matches_def rx_eval str_eval catalog_eval)
  have generic: "generic_matches glucose_line =
     [\<lparr>name = str ''Glucose (Fasting)'', value = Fin 95.5, unit = str ''mg/dL''\<rparr>]"
    by (simp add: glucose_line_def generic_matches_def generic_match_def knownTest_def
        rx_eval str_eval catalog_eval)
  have lines: "split 10 glucose_line = [glucose_line]"
    by (simp add: glucose_line_def str_def)
  show ?thesis
    by (simp add: parseBloodworkText_def collect_def lines known generic remove_duplicates_def)
qed

text \<open>
  C10. Every measurement that the extraction returns carries the display name of a catalog
  entry, so the lookup of \<open>analyzeValue\<close> finds a range for it and the range \<open>Unknown\<close> is
  not produced.
\<close>

theorem parsed_names_in_catalog:
  assumes "m \<in> set (parseBloodworkText t)"
  shows "name m \<in> range_name ` set range_values \<and>
         List.find (\<lambda>r. range_name r = name m) range_values \<noteq> None \<and>
         normalRange (analyzeValue (name m) (value m) (unit m)) \<noteq> str ''Unknown''"
proof -
  have member: "name m \<in> range_name ` set range_values"
    using assms parse_subset collect_names by blast
  then have found: "List.find (\<lambda>r. range_name r = name m) range_values \<noteq> None"
    by (auto simp: find_None_iff)
  then obtain r where "List.find (\<lambda>r. range_name r = name m) range_values = Some r"
    by auto
  then have "normalRange (analyzeValue (name m) (value m) (unit m)) = range_text r"
    by (simp add: analyzeValue_def Let_def)
  with member found range_text_not_Unknown show ?thesis by simp
qed

theorem parsed_names_in_catalog_witness:
  "glucose_250 \<in> set (parseBloodworkText report_text) \<and>
   name glucose_250 \<in> range_name ` set range_values \<and>
   normalRange (analyzeValue (name glucose_250) (value glucose_250) (unit glucose_250))
     \<noteq> str ''Unknown''"
proof -
  have member: "glucose_250 \<in> set (parseBloodworkText report_text)"
    by (simp add: report_parse)
  show ?thesis
    using member parsed_names_in_catalog [OF member] by simp
qed

text \<open>
  C2, at the catalog entry Iron, whose unit is \<open>\<mu>g/dL\<close>: the line \<open>Iron: 100 \<mu>g/dL\<close> gives no
  measurement at all, because no pattern reads a unit that starts with U+03BC. At the entry
  White Blood Cell Count the line gives one measurement whose unit is cut to \<open>K/\<close>.
\<close>

theorem micro_unit_lines_not_extracted:
  "(str ''iron'', mk_range 60 170 ([956] @ str ''g/dL'') (str ''Iron'')) \<in> set NORMAL_RANGES \<and>
   iron_line = str ''Iron'' @ str '': 100 '' @ ([956] @ str ''g/dL'') \<and>
   parseBloodworkText iron_line = [] \<and>
   (str ''wbc'', mk_range 4.5 11 (str ''K/'' @ [956] @ str ''L'') (str ''White Blood Cell Count''))
     \<in> set NORMAL_RANGES \<and>
   wbc_line = str ''White Blood Cell Count'' @ str '': 7 '' @ (str ''K/'' @ [956] @ str ''L'') \<and>
   parseBloodworkText wbc_line =
     [\<lparr>name = str ''White Blood Cell Count'', value = Fin 7, unit = str ''K/''\<rparr>]"
proof -
  have iron_known: "known_matches iron_line = []"
    by (simp add: iron_line_def known_matches_def rx_eval str_eval catalog_eval)
  have iron_generic: "generic_matches iron_line = []"
    by (simp add: iron_line_def generic_matches_def generic_match_def knownTest_def
        rx_eval str_eval catalog_eval)
  have iron_lines: "split 10 iron_line = [iron_line]"
    by (simp add: iron_line_def str_def)
  have iron: "parseBloodworkText iron_line = []"
    by (simp add: parseBloodworkText_def collect_def iron_lines iron_known iron_generic
        remove_duplicates_def)
  have wbc_known: "known_matches wbc_line
      = [\<lparr>name = str ''White Blood Cell Count'', value = Fin 7, unit = str ''K/''\<rparr>]"
    by (simp add: wbc_line_def known_matches_def rx_eval str_eval catalog_eval)
  have wbc_generic: "generic_matches wbc_line
      = [\<lparr>name = str ''White Blood Cell Count'', value = Fin 7, unit = str ''K/''\<rparr>]"
    by (simp add: wbc_line_def generic_matches_def generic_match_def knownTest_def
        rx_eval str_eval catalog_eval)
  have wbc_lines: "split 10 wbc_line = [wbc_line]"
    by (simp add: wbc_line_def str_def)
  have wbc: "parseBloodworkText wbc_line =
     [\<lparr>name = str ''White Blood Cell Count'', value = Fin 7, unit = str ''K/''\<rparr>]"
    by (simp add: parseBloodworkText_def collect_def wbc_lines wbc_known wbc_generic
        remove_duplicates_def)
  have entries: "(str ''iron'', mk_range 60 170 ([956] @ str ''g/dL'') (str ''Iron''))
       \<in> set NORMAL_RANGES"
     "(str ''wbc'', mk_range 4.5 11 (str ''K/'' @ [956] @ str ''L'') (str ''White Blood Cell Count''))
       \<in> set NORMAL_RANGES"
    by (simp_all add: NORMAL_RANGES_def)
  have shapes: "iron_line = str ''Iron'' @ str '': 100 '' @ ([956] @ str ''g/dL'')"
    "wbc_line = str ''White Blood Cell Count'' @ str '': 7 '' @ (str ''K/'' @ [956] @ str ''L'')"
    by (simp_all add: iron_line_def wbc_line_def str_def)
  from iron wbc entries shapes show ?thesis by simp
qed

section \<open>Summary synthesis\<close>

text \<open>
  C5. Exactly one branch is taken, in this order. With a critical value: the summary with the
  warning sign that cites the number of critical values, and the recommendations to see the
  doctor as soon as possible and to consider emergency care, whatever else is high or low.
  Otherwise, with a high or a low value: the summary that cites the number of flagged values
  and then the number of elevated and the number of low values, each when positive, and the
  recommendations to consult the provider and to consider lifestyle changes. Otherwise the
  summary with the check mark and the recommendations to keep the lifestyle and to schedule
  check-ups. The sentence that points to the detailed results ends the summary in every
  branch.
\<close>

theorem generateSummary_priority:
  "(0 < length (filter (\<lambda>v. status_of v = Critical) vs) \<longrightarrow>
      generateSummary vs =
        ([9888, 65039] @ str '' Your bloodwork shows ''
           @ digits_of (length (filter (\<lambda>v. status_of v = Critical) vs))
           @ str '' critical value(s) that require immediate medical attention. ''
           @ str ''Review the detailed results below for more information about each test.'',
         [str ''Schedule an appointment with your doctor as soon as possible.'',
          str ''If you're experiencing severe symptoms, consider seeking emergency care.''])) \<and>
   (length (filter (\<lambda>v. status_of v = Critical) vs) = 0 \<and>
    (0 < length (filter (\<lambda>v. status_of v = High) vs) \<or>
     0 < length (filter (\<lambda>v. status_of v = Low) vs)) \<longrightarrow>
      generateSummary vs =
        (str ''Your bloodwork shows ''
           @ digits_of (length (filter (\<lambda>v. status_of v \<noteq> Normal) vs))
           @ str '' value(s) outside the normal range. ''
           @ (if 0 < length (filter (\<lambda>v. status_of v = High) vs)
              then str ''You have '' @ digits_of (length (filter (\<lambda>v. status_of v = High) vs))
                @ str '' elevated value(s). ''
              else [])
           @ (if 0 < length (filter (\<lambda>v. status_of v = Low) vs)
              then str ''You have '' @ digits_of (length (filter (\<lambda>v. status_of v = Low) vs))
                @ str '' low value(s). ''
              else [])
           @ str ''Review the detailed results below for more information about each test.'',
         [str ''Consult with your healthcare provider about these results.'',
          str ''Consider lifestyle changes like diet and exercise if recommended by your doctor.''])) \<and>
   (length (filter (\<lambda>v. status_of v = Critical) vs) = 0 \<and>
    length (filter (\<lambda>v. status_of v = High) vs) = 0 \<and>
    length (filter (\<lambda>v. status_of v = Low) vs) = 0 \<longrightarrow>
      generateSummary vs =
        ([9989] @ str '' Great news! All your bloodwork values are within normal ranges. ''
           @ str ''Review the detailed results below for more information about each test.'',
         [str ''Continue maintaining a healthy lifestyle.'',
          str ''Schedule regular check-ups to monitor your health.''])) \<and>
   suffix (str ''Review the detailed results below for more information about each test.'')
     (fst (generateSummary vs))"
  by (auto simp: generateSummary_def Let_def suffix_def)

lemma status_of_spread: "status_of (spread pv a) = status a"
  by (simp add: status_of_def spread_def measurement.defs)

lemma measurement_of_spread:
  "name (spread pv a) = name pv" "value (spread pv a) = value pv" "unit (spread pv a) = unit pv"
  by (simp_all add: spread_def measurement.defs)

theorem generateSummary_priority_witness:
  "0 < length (filter (\<lambda>v. status_of v = Critical) critical_mix) \<and>
   0 < length (filter (\<lambda>v. status_of v = High) critical_mix) \<and>
   0 < length (filter (\<lambda>v. status_of v = Low) critical_mix) \<and>
   generateSummary critical_mix =
     ([9888, 65039] @ str '' Your bloodwork shows 1 critical value(s) that require immediate medical attention. Review the detailed results below for more information about each test.'',
      [str ''Schedule an appointment with your doctor as soon as possible.'',
       str ''If you're experiencing severe symptoms, consider seeking emergency care.'']) \<and>
   length (filter (\<lambda>v. status_of v = Critical) flagged_mix) = 0 \<and>
   0 < length (filter (\<lambda>v. status_of v = High) flagged_mix) \<and>
   generateSummary flagged_mix =
     (str ''Your bloodwork shows 2 value(s) outside the normal range. You have 1 elevated value(s). You have 1 low value(s). Review the detailed results below for more information about each test.'',
      [str ''Consult with your healthcare provider about these results.'',
       str ''Consider lifestyle changes like diet and exercise if recommended by your doctor.'']) \<and>
   length (filter (\<lambda>v. status_of v = Critical) all_normal) = 0 \<and>
   length (filter (\<lambda>v. status_of v = High) all_normal) = 0 \<and>
   length (filter (\<lambda>v. status_of v = Low) all_normal) = 0 \<and>
   generateSummary all_normal =
     ([9989] @ str '' Great news! All your bloodwork values are within normal ranges. Review the detailed results below for more information about each test.'',
      [str ''Continue maintaining a healthy lifestyle.'',
       str ''Schedule regular check-ups to monitor your health.''])"
proof -
  have counts:
    "length (filter (\<lambda>v. status_of v = Critical) critical_mix) = 1"
    "length (filter (\<lambda>v. status_of v = High) critical_mix) = 2"
    "length (filter (\<lambda>v. status_of v = Low) critical_mix) = 1"
    "length (filter (\<lambda>v. status_of v = Critical) flagged_mix) = 0"
    "length (filter (\<lambda>v. status_of v = High) flagged_mix) = 1"
    "length (filter (\<lambda>v. status_of v = Low) flagged_mix) = 1"
    "length (filter (\<lambda>v. status_of v \<noteq> Normal) flagged_mix) = 2"
    "length (filter (\<lambda>v. status_of v = Critical) all_normal) = 0"
    "length (filter (\<lambda>v. status_of v = High) all_normal) = 0"
    "length (filter (\<lambda>v. status_of v = Low) all_normal) = 0"
    by (simp_all add: critical_mix_def flagged_mix_def all_normal_def status_of_spread)
  have critical: "generateSummary critical_mix =
     ([9888, 65039] @ str '' Your bloodwork shows 1 critical value(s) that require immediate medical attention. Review the detailed results below for more information about each test.'',
      [str ''Schedule an appointment with your doctor as soon as possible.'',
       str ''If you're experiencing severe symptoms, consider seeking emergency care.''])"
    using generateSummary_priority [of critical_mix, THEN conjunct1]
    by (simp add: counts digits_of.simps str_def)
  have flagged: "generateSummary flagged_mix =
     (str ''Your bloodwork shows 2 value(s) outside the normal range. You have 1 elevated value(s). You have 1 low value(s). Review the detailed results below for more information about each test.'',
      [str ''Consult with your healthcare provider about these results.'',
       str ''Consider lifestyle changes like diet and exercise if recommended by your doctor.''])"
    using generateSummary_priority [of flagged_mix, THEN conjunct2, THEN conjunct1]
    by (simp add: counts digits_of.simps str_def)
  have normal: "generateSummary all_normal =
     ([9989] @ str '' Great news! All your bloodwork values are within normal ranges. Review the detailed results below for more information about each test.'',
      [str ''Continue maintaining a healthy lifestyle.'',
       str ''Schedule regular check-ups to monitor your health.''])"
    using generateSummary_priority [of all_normal, THEN conjunct2, THEN conjunct2, THEN conjunct1]
    by (simp add: counts str_def)
  from counts critical flagged normal show ?thesis
    by simp
qed

section \<open>The handler\<close>

lemma glucose_250_analysis:
  "analyzeValue (name glucose_250) (value glucose_250) (unit glucose_250) =
     \<lparr>status = Critical,
      normalRange = str ''70-100 mg/dL'',
      explanation = str ''Your Glucose (Fasting) level is above the normal range (70-100 mg/dL). This may require medical attention.''\<rparr>"
  unfolding glucose_250_def measurement.simps analyzeValue_def glucose_found
  by (simp add: glucose_range_def mk_range_def normalizedValue_def num_gt_def double_eval
      range_text_def number_text_def digits_of.simps str_def)

lemma hemoglobin_found:
  "List.find (\<lambda>r. range_name r = str ''Hemoglobin'') range_values
      = Some (mk_range 12 17.5 (str ''g/dL'') (str ''Hemoglobin''))"
  by (simp add: catalog_eval str_def)

lemma hemoglobin_14_analysis:
  "analyzeValue (name hemoglobin_14) (value hemoglobin_14) (unit hemoglobin_14) =
     \<lparr>status = Normal,
      normalRange = str ''12-17.5 g/dL'',
      explanation = str ''Your Hemoglobin level is within the normal range (12-17.5 g/dL). This is a good sign!''\<rparr>"
  unfolding hemoglobin_14_def measurement.simps analyzeValue_def hemoglobin_found
  by (simp add: mk_range_def normalizedValue_def num_gt_def double_eval
      range_text_def number_text_def digits_of.simps str_def)

lemma glucose_250_above_threshold:
  "num_gt (normalizedValue (Fin 250) (str ''mg/dL'') glucose_range)
     (num_times (double (range_max glucose_range)) (double 1.5))"
  by (simp add: glucose_range_def mk_range_def normalizedValue_def num_gt_def double_eval)

lemma report_screen:
  "screen e uid f report_text =
     Inr \<lparr>userId = uid,
          fileName = file_name f,
          uploadedAt = uploadedAt_iso e,
          values =
            [spread \<lparr>name = str ''Glucose (Fasting)'', value = Fin 250, unit = str ''mg/dL''\<rparr>
               \<lparr>status = Critical,
                normalRange = str ''70-100 mg/dL'',
                explanation = str ''Your Glucose (Fasting) level is above the normal range (70-100 mg/dL). This may require medical attention.''\<rparr>,
             spread \<lparr>name = str ''Hemoglobin'', value = Fin 14, unit = str ''g/dL''\<rparr>
               \<lparr>status = Normal,
                normalRange = str ''12-17.5 g/dL'',
                explanation = str ''Your Hemoglobin level is within the normal range (12-17.5 g/dL). This is a good sign!''\<rparr>],
          summary = [9888, 65039] @ str '' Your bloodwork shows 1 critical value(s) that require immediate medical attention. Review the detailed results below for more information about each test.'',
          recommendations =
            [str ''Schedule an appointment with your doctor as soon as possible.'',
             str ''If you're experiencing severe symptoms, consider seeking emergency care.''],
          flaggedCount = 1\<rparr>"
  by (simp add: screen_def report_parse Let_def glucose_250_analysis hemoglobin_14_analysis
      generateSummary_def status_of_spread digits_of.simps)
    (simp add: glucose_250_def hemoglobin_14_def str_def)

text \<open>
  C7. On the text \<open>Glucose: 250 mg/dL\<close>, newline, \<open>Hemoglobin: 14 g/dL\<close> the pipeline gives
  the result with exactly two values: glucose, under its display name, with 250 and the
  status critical, classified on the high side (the explanation says above the normal range,
  and 250 is above the high threshold of the glucose entry); hemoglobin with 14 and the
  status normal. The flagged count is 1, and the summary is the critical summary for one
  value, with its two recommendations.
\<close>

theorem report_end_to_end:
  "screen e uid f (str ''Glucose: 250 mg/dL'' @ [10] @ str ''Hemoglobin: 14 g/dL'') =
     Inr \<lparr>userId = uid,
          fileName = file_name f,
          uploadedAt = uploadedAt_iso e,
          values =
            [spread \<lparr>name = str ''Glucose (Fasting)'', value = Fin 250, unit = str ''mg/dL''\<rparr>
               \<lparr>status = Critical,
                normalRange = str ''70-100 mg/dL'',
                explanation = str ''Your Glucose (Fasting) level is above the normal range (70-100 mg/dL). This may require medical attention.''\<rparr>,
             spread \<lparr>name = str ''Hemoglobin'', value = Fin 14, unit = str ''g/dL''\<rparr>
               \<lparr>status = Normal,
                normalRange = str ''12-17.5 g/dL'',
                explanation = str ''Your Hemoglobin level is within the normal range (12-17.5 g/dL). This is a good sign!''\<rparr>],
          summary = [9888, 65039] @ str '' Your bloodwork shows 1 critical value(s) that require immediate medical attention. Review the detailed results below for more information about each test.'',
          recommendations =
            [str ''Schedule an appointment with your doctor as soon as possible.'',
             str ''If you're experiencing severe symptoms, consider seeking emergency care.''],
          flaggedCount = 1\<rparr> \<and>
   (\<exists>rg. List.find (\<lambda>r. range_name r = str ''Glucose (Fasting)'') range_values = Some rg \<and>
      num_gt (normalizedValue (Fin 250) (str ''mg/dL'') rg)
        (num_times (double (range_max rg)) (double 1.5)))"
  using report_screen [of e uid f] glucose_found glucose_250_above_threshold
  unfolding report_text_def by simp

text \<open>
  C6. Whenever the handler answers with a result, the flagged count of the result is the
  number of its values whose status is not normal.
\<close>

theorem POST_flaggedCount:
  assumes "POST e req fs = (ResultResponse r row_id warning, fs')"
  shows "flaggedCount r = length (filter (\<lambda>v. status_of v \<noteq> Normal) (values r))"
  using assms
  by (auto simp: POST_def screen_def save_def extractText_def Let_def
      split: option.splits if_splits extraction.splits sum.splits prod.splits)

lemma text_upload_extracted: "extractText example_env text_upload = Extracted report_text"
  by (simp add: extractText_def example_env_def text_upload_def pop_def or_else_def truthy_def
      group_str_def str_def toLowerCase_def lower_unit_def is_upper_def)

lemma text_upload_response:
  "\<exists>r fs'. POST example_env (request_of text_upload) Map.empty
       = (ResultResponse r (Some (str ''7'')) None, fs') \<and> flaggedCount r = 1"
proof -
  obtain r where r: "screen example_env (str ''user_1'') text_upload report_text = Inr r"
    "flaggedCount r = 1"
    using report_screen [of example_env "str ''user_1''" text_upload] by simp
  have saved: "save example_env r = ResultResponse r (Some (str ''7'')) None"
    by (simp add: save_def example_env_def)
  have staged: "writeFile example_env fs p b = Inr (fs(p \<mapsto> b))" for fs p b
    by (simp add: writeFile_def example_env_def)
  have user: "truthy (Some (str ''user_1''))" "group_str (Some (str ''user_1'')) = str ''user_1''"
    by (simp_all add: truthy_def group_str_def str_def)
  from r saved show ?thesis
    by (simp add: POST_def request_of_def Let_def text_upload_extracted staged user)
qed

theorem POST_flaggedCount_witness:
  "\<exists>r fs'. POST example_env (request_of text_upload) Map.empty
       = (ResultResponse r (Some (str ''7'')) None, fs') \<and>
     flaggedCount r = length (filter (\<lambda>v. status_of v \<noteq> Normal) (values r)) \<and>
     flaggedCount r = 1"
proof -
  obtain r fs' where run: "POST example_env (request_of text_upload) Map.empty
       = (ResultResponse r (Some (str ''7'')) None, fs')" and one: "flaggedCount r = 1"
    using text_upload_response by blast
  from POST_flaggedCount [OF run] run one show ?thesis
    by blast
qed

text \<open>
  C9, as the code has it. Once the handler has a file and a user id and \<open>writeFile\<close> has
  staged the buffer, every exit of the inner \<open>try\<close> (the text extracted, the extraction failed,
  the upload an image) passes the \<open>finally\<close> block, which calls \<open>unlink\<close> on the staged path
  once. When \<open>unlink\<close> succeeds, the file system the handler leaves is the one it found without
  the staged path. When \<open>unlink\<close> rejects, the error is caught and logged, and the staged
  file stays with the uploaded bytes.
\<close>

theorem POST_staged_file_cleanup:
  assumes "form_file req = Some f" and "truthy (form_userId req)"
    and "write_fault e (tempFilePath e f) = None"
  shows "(unlink_fault e (tempFilePath e f) = None \<longrightarrow>
            snd (POST e req fs) = fs(tempFilePath e f := None) \<and>
            tempFilePath e f \<notin> dom (snd (POST e req fs))) \<and>
         (unlink_fault e (tempFilePath e f) \<noteq> None \<longrightarrow>
            snd (POST e req fs) = fs(tempFilePath e f \<mapsto> file_bytes f))"
  using assms
  by (auto simp: POST_def Let_def writeFile_def unlink_def
      split: extraction.splits sum.splits option.splits)

lemma broken_pdf_response:
  "extractText example_env broken_pdf_upload = Returned (ErrorResponse 500
     (str ''Failed to extract text from file. Please ensure it's a valid PDF or text file.'')
     None None)"
  by (simp add: extractText_def example_env_def broken_pdf_upload_def pop_def
      str_def toLowerCase_def lower_unit_def is_upper_def)

lemma image_response:
  "extractText e image_upload = Returned (ErrorResponse 400
     (str ''Image files are not yet supported. Please upload a PDF file of your bloodwork results.'')
     (Some (str ''Most labs provide results in PDF format. If you only have an image, consider converting it to PDF first.''))
     None)"
  by (simp add: extractText_def image_upload_def pop_def or_else_def truthy_def
      group_str_def str_def toLowerCase_def lower_unit_def is_upper_def)

lemma request_of_fields:
  "form_file (request_of f) = Some f" "truthy (form_userId (request_of f))"
  by (simp_all add: request_of_def truthy_def str_def)

lemma example_env_faults:
  "write_fault example_env p = None" "unlink_fault example_env p = None"
  "write_fault locked_env p = None"
  "unlink_fault locked_env p = Some (FsError (str ''EPERM: operation not permitted''))"
  by (simp_all add: example_env_def locked_env_def)

theorem POST_staged_file_cleanup_witness:
  "form_file (request_of text_upload) = Some text_upload \<and>
   truthy (form_userId (request_of text_upload)) \<and>
   write_fault example_env (tempFilePath example_env text_upload) = None \<and>
   unlink_fault example_env (tempFilePath example_env text_upload) = None \<and>
   extractText example_env text_upload = Extracted report_text \<and>
   tempFilePath example_env text_upload
     \<notin> dom (snd (POST example_env (request_of text_upload) Map.empty)) \<and>
   extractText example_env broken_pdf_upload = Returned (ErrorResponse 500
     (str ''Failed to extract text from file. Please ensure it's a valid PDF or text file.'')
     None None) \<and>
   tempFilePath example_env broken_pdf_upload
     \<notin> dom (snd (POST example_env (request_of broken_pdf_upload) Map.empty)) \<and>
   extractText example_env image_upload = Returned (ErrorResponse 400
     (str ''Image files are not yet supported. Please upload a PDF file of your bloodwork results.'')
     (Some (str ''Most labs provide results in PDF format. If you only have an image, consider converting it to PDF first.''))
     None) \<and>
   tempFilePath example_env image_upload
     \<notin> dom (snd (POST example_env (request_of image_upload) Map.empty)) \<and>
   unlink_fault locked_env (tempFilePath locked_env image_upload) \<noteq> None \<and>
   snd (POST locked_env (request_of image_upload) Map.empty)
     = [tempFilePath locked_env image_upload \<mapsto> file_bytes image_upload]"
  using request_of_fields example_env_faults text_upload_extracted broken_pdf_response
    image_response [of example_env]
    POST_staged_file_cleanup [OF request_of_fields [of text_upload]
      example_env_faults(1), of Map.empty]
    POST_staged_file_cleanup [OF request_of_fields [of broken_pdf_upload]
      example_env_faults(1), of Map.empty]
    POST_staged_file_cleanup [OF request_of_fields [of image_upload]
      example_env_faults(1), of Map.empty]
    POST_staged_file_cleanup [OF request_of_fields [of image_upload]
      example_env_faults(3), of Map.empty]
  by simp

text \<open>
  The claim C9 as it is written fails where \<open>unlink\<close> rejects: on a file system that lets the
  handler create the staged file but not remove it, the handler returns the response for an
  image upload and the staged file is still there, with the uploaded bytes.
\<close>

theorem POST_staged_file_counterexample:
  "form_file (request_of image_upload) = Some image_upload \<and>
   truthy (form_userId (request_of image_upload)) \<and>
   writeFile locked_env Map.empty (tempFilePath locked_env image_upload) (file_bytes image_upload)
     = Inr [tempFilePath locked_env image_upload \<mapsto> file_bytes image_upload] \<and>
   unlink locked_env [tempFilePath locked_env image_upload \<mapsto> file_bytes image_upload]
       (tempFilePath locked_env image_upload)
     = Inl (FsError (str ''EPERM: operation not permitted'')) \<and>
   fst (POST locked_env (request_of image_upload) Map.empty) = ErrorResponse 400
     (str ''Image files are not yet supported. Please upload a PDF file of your bloodwork results.'')
     (Some (str ''Most labs provide results in PDF format. If you only have an image, consider converting it to PDF first.''))
     None \<and>
   snd (POST locked_env (request_of image_upload) Map.empty)
       (tempFilePath locked_env image_upload)
     = Some (file_bytes image_upload) \<and>
   tempFilePath locked_env image_upload
     \<in> dom (snd (POST locked_env (request_of image_upload) Map.empty))"
proof -
  have staged: "writeFile locked_env Map.empty (tempFilePath locked_env image_upload)
      (file_bytes image_upload)
     = Inr [tempFilePath locked_env image_upload \<mapsto> file_bytes image_upload]"
    by (simp add: writeFile_def example_env_faults)
  have rejected: "unlink locked_env [tempFilePath locked_env image_upload \<mapsto> file_bytes image_upload]
       (tempFilePath locked_env image_upload)
     = Inl (FsError (str ''EPERM: operation not permitted''))"
    by (simp add: unlink_def example_env_faults)
  have run: "POST locked_env (request_of image_upload) Map.empty =
     (ErrorResponse 400
        (str ''Image files are not yet supported. Please upload a PDF file of your bloodwork results.'')
        (Some (str ''Most labs provide results in PDF format. If you only have an image, consider converting it to PDF first.''))
        None,
      [tempFilePath locked_env image_upload \<mapsto> file_bytes image_upload])"
    by (simp add: POST_def Let_def request_of_fields staged rejected image_response)
  from staged rejected run request_of_fields show ?thesis
    by simp
qed

end
